theory Spec2Isabelle
  imports Complex_Main "HOL-Library.Word"
begin

section \<open>Bytes and results common to both utilities\<close>

text \<open>
  A byte string (a Python 3 \<open>bytes\<close> object in the echo server; a Python 2 \<open>str\<close> or
  a Python 3 \<open>bytes\<close> object in \<open>trx.py\<close>) is a list of 8-bit words.
\<close>

type_synonym bytes = "8 word list"

section \<open>The echo server (\<open>echo-server/bin/echo-server.py\<close>)\<close>

text \<open>
  \<open>bytes.strip()\<close> with no argument removes leading and trailing ASCII whitespace:
  tab, line feed, vertical tab, form feed, carriage return and space.
\<close>

definition isspace :: "8 word \<Rightarrow> bool" where
  "isspace b = (b = 9 \<or> b = 10 \<or> b = 11 \<or> b = 12 \<or> b = 13 \<or> b = 32)"

definition lstrip :: "bytes \<Rightarrow> bytes" where
  "lstrip bs = dropWhile isspace bs"

definition rstrip :: "bytes \<Rightarrow> bytes" where
  "rstrip bs = rev (dropWhile isspace (rev bs))"

definition strip :: "bytes \<Rightarrow> bytes" where
  "strip bs = rstrip (lstrip bs)"

text \<open>
  What the handler does to the outside world, in order: the calls on the request socket
  and the two \<open>print\<close> calls (the second prints the bytes object itself).
\<close>

datatype echo_event =
    Request_recv nat
  | Print_str string
  | Print_bytes bytes
  | Request_sendall bytes

text \<open>
  The handler object: the peer's address, the bytes the client has sent and that are
  still unread on the connection, the \<open>data\<close> attribute, and the calls made so far.
\<close>

record echo_handler =
  client_address :: "string \<times> nat"
  request :: bytes
  data :: bytes
  calls :: "echo_event list"

text \<open>\<open>recv(bufsize)\<close> hands over at most \<open>bufsize\<close> of the unread bytes.\<close>

definition request_recv :: "nat \<Rightarrow> echo_handler \<Rightarrow> bytes \<times> echo_handler" where
  "request_recv bufsize h =
     (take bufsize (request h),
      h\<lparr>request := drop bufsize (request h),
        calls := calls h @ [Request_recv bufsize]\<rparr>)"

definition print_str :: "string \<Rightarrow> echo_handler \<Rightarrow> echo_handler" where
  "print_str s h = h\<lparr>calls := calls h @ [Print_str s]\<rparr>"

definition print_bytes :: "bytes \<Rightarrow> echo_handler \<Rightarrow> echo_handler" where
  "print_bytes bs h = h\<lparr>calls := calls h @ [Print_bytes bs]\<rparr>"

definition request_sendall :: "bytes \<Rightarrow> echo_handler \<Rightarrow> echo_handler" where
  "request_sendall bs h = h\<lparr>calls := calls h @ [Request_sendall bs]\<rparr>"

text \<open>
  \<^verbatim>\<open>
  def handle(self):
      self.data = self.request.recv(1024).strip()
      print("{} wrote:".format(self.client_address[0]))
      print(self.data, flush=True)
      self.request.sendall(self.data)
  \<close>
\<close>

definition handle :: "echo_handler \<Rightarrow> echo_handler" where
  "handle h0 =
     (let (received, h1) = request_recv 1024 h0;
          h2 = h1\<lparr>data := strip received\<rparr>;
          h3 = print_str (fst (client_address h2) @ '' wrote:'') h2;
          h4 = print_bytes (data h3) h3
      in request_sendall (data h4) h4)"

text \<open>A fresh handler for a connection from \<open>addr\<close> on which the client sent \<open>inp\<close>.\<close>

definition new_request :: "string \<times> nat \<Rightarrow> bytes \<Rightarrow> echo_handler" where
  "new_request addr inp = \<lparr>client_address = addr, request = inp, data = [], calls = []\<rparr>"

text \<open>The bytes the client gets back: the payloads of the \<open>sendall\<close> calls, in order.\<close>

fun returned :: "echo_event list \<Rightarrow> bytes" where
  "returned [] = []"
| "returned (Request_sendall bs # es) = bs @ returned es"
| "returned (_ # es) = returned es"

definition echoed :: "string \<times> nat \<Rightarrow> bytes \<Rightarrow> bytes" where
  "echoed addr inp = returned (calls (handle (new_request addr inp)))"

section \<open>The audio relay (\<open>pyaudio_trx/trx.py\<close>)\<close>

text \<open>
  \<open>trx.py\<close> parses and runs unchanged on Python 2 and on Python 3, and nothing in it
  names one of them. Two of its expressions mean different things on the two: the test
  \<open>data != ''\<close> on what \<open>recv\<close> returned (a \<open>str\<close> on Python 2, a \<open>bytes\<close> object
  on Python 3), and the division \<open>self.rate / self.chunk_size\<close> of two \<open>int\<close>s. The
  model takes the interpreter as part of the configuration and follows each.

  The audio library (PyAudio), the socket and the \<open>wave\<close> module are outside the
  repository. A call on one of them is recorded as an event, in the order the program
  makes it; what the outside world answers to a blocking call (an accept, a socket read,
  a capture read followed by a socket write) is given to the model as a script, a list
  of answers. A loop that finds its script exhausted is \<open>Blocked\<close>: it waits in that call
  and has not returned. Binding, listening, connecting and opening a stream are taken to
  succeed.
\<close>

datatype interpreter = Python2 | Python3

subsection \<open>Exceptions and results\<close>

datatype pyerror =
    NameError string
  | AttributeError string
  | UnboundLocalError string
  | ZeroDivisionError
  | OverflowError
  | ValueError
  | KeyboardInterrupt
  | IOError
  | Wave_Error
  | Socket_timeout
  | Socket_error int

datatype result = Normal | Raise pyerror | Blocked

text \<open>\<open>errno.EINTR\<close>, and two errnos that are not \<open>EINTR\<close> (Linux numbering).\<close>

definition EINTR :: int where
  "EINTR = 4"

definition ECONNABORTED :: int where
  "ECONNABORTED = 103"

definition EBADF :: int where
  "EBADF = 9"

subsection \<open>PyAudio's sample formats\<close>

datatype pa_format = paFloat32 | paInt32 | paInt24 | paInt16 | paInt8 | paUInt8

text \<open>\<open>PyAudio.get_sample_size(format)\<close>: bytes per sample.\<close>

fun get_sample_size :: "pa_format \<Rightarrow> nat" where
  "get_sample_size paFloat32 = 4"
| "get_sample_size paInt32 = 4"
| "get_sample_size paInt24 = 3"
| "get_sample_size paInt16 = 2"
| "get_sample_size paInt8 = 1"
| "get_sample_size paUInt8 = 1"

text \<open>\<open>PyAudio.get_format_from_width(width)\<close>; any other width raises \<open>ValueError\<close>.\<close>

definition get_format_from_width :: "nat \<Rightarrow> pa_format option" where
  "get_format_from_width w =
     (if w = 1 then Some paUInt8
      else if w = 2 then Some paInt16
      else if w = 3 then Some paInt24
      else if w = 4 then Some paFloat32
      else None)"

text \<open>A stream object: the arguments \<open>audio.open\<close> was called with, and a number that
  tells the streams of one PyAudio instance apart.\<close>

record pa_stream =
  stream_id :: nat
  stream_format :: pa_format
  stream_channels :: int
  stream_rate :: int
  stream_input :: bool
  stream_device_index :: "int option"
  frames_per_buffer :: int

subsection \<open>Events\<close>

datatype level = DEBUG | INFO | WARNING

text \<open>An operand of \<open>%\<close> in a log message: an integer, or an address given to \<open>str\<close>.\<close>

datatype logarg = Arg_int int | Arg_addr "string \<times> int"

text \<open>
  A log record keeps the format string and its operands. \<open>Stream_read\<close> keeps the
  stream, the number of frames asked for and the bytes the device returned.
\<close>

datatype event =
    Log level string "logarg list"
  | Audio_init
  | Audio_open pa_stream
  | Audio_terminate
  | Stream_read pa_stream int bytes
  | Stream_read_raised pa_stream int pyerror
  | Stream_write nat bytes
  | Stream_stop nat
  | Stream_close nat
  | Sock_create
  | Sock_settimeout
  | Sock_bind string int
  | Sock_listen int
  | Sock_accept
  | Sock_connect string int
  | Sock_sendall bytes
  | Sock_sendall_raised bytes pyerror
  | Sock_close
  | Conn_recv int

subsection \<open>\<open>BaseAudio\<close>\<close>

text \<open>
  The interpreter that runs the object, the attributes of a \<open>BaseAudio\<close> object and
  the events so far. \<open>audio\<close> is the
  PyAudio instance, represented by the number of streams it has opened; \<open>sock\<close> and
  \<open>stream\<close> are \<open>None\<close> until they are created. The socket timeout is a float and is
  not represented.
\<close>

record base_audio =
  python :: interpreter
  chunk_size :: int
  channels :: int
  device_index :: "int option"
  duration :: "int option"
  rate :: int
  host :: string
  port :: int
  format :: pa_format
  audio :: "nat option"
  sock :: "unit option"
  stream :: "pa_stream option"
  trace :: "event list"

definition emit :: "event \<Rightarrow> 'a base_audio_scheme \<Rightarrow> 'a base_audio_scheme" where
  "emit e s = s\<lparr>trace := trace s @ [e]\<rparr>"

definition log_msg :: "level \<Rightarrow> string \<Rightarrow> logarg list \<Rightarrow> 'a base_audio_scheme \<Rightarrow> 'a base_audio_scheme" where
  "log_msg lvl fmt ops s = emit (Log lvl fmt ops) s"

text \<open>A statement after a call runs only when the call returned normally.\<close>

definition and_then ::
  "result \<times> 's \<Rightarrow> ('s \<Rightarrow> result \<times> 's) \<Rightarrow> result \<times> 's" where
  "and_then c f = (case c of (Normal, s) \<Rightarrow> f s | (res, s) \<Rightarrow> (res, s))"

text \<open>A method call on \<open>self.stream\<close> or \<open>self.sock\<close>; on \<open>None\<close> it raises.\<close>

definition on_stream ::
  "(pa_stream \<Rightarrow> event) \<Rightarrow> 'a base_audio_scheme \<Rightarrow> result \<times> 'a base_audio_scheme" where
  "on_stream ev s =
     (case stream s of
        None \<Rightarrow> (Raise (AttributeError ''NoneType''), s)
      | Some st \<Rightarrow> (Normal, emit (ev st) s))"

definition on_sock ::
  "event \<Rightarrow> 'a base_audio_scheme \<Rightarrow> result \<times> 'a base_audio_scheme" where
  "on_sock ev s =
     (case sock s of
        None \<Rightarrow> (Raise (AttributeError ''NoneType''), s)
      | Some _ \<Rightarrow> (Normal, emit ev s))"

text \<open>
  \<^verbatim>\<open>
  def shutdown(self):
      self.log.info("Shutting down")
      if self.stream:
          self.stream.stop_stream()
          self.stream.close()
      if self.audio:
          self.audio.terminate()
      if self.sock:
          self.sock.close()
  \<close>
  A stream, PyAudio or socket object is true; only \<open>None\<close> is false. No attribute is
  assigned.
\<close>

definition shutdown :: "'a base_audio_scheme \<Rightarrow> 'a base_audio_scheme" where
  "shutdown s0 =
     (let s1 = log_msg INFO ''Shutting down'' [] s0;
          s2 = (case stream s1 of
                  None \<Rightarrow> s1
                | Some st \<Rightarrow> emit (Stream_close (stream_id st)) (emit (Stream_stop (stream_id st)) s1));
          s3 = (case audio s2 of
                  None \<Rightarrow> s2
                | Some _ \<Rightarrow> emit Audio_terminate s2)
      in (case sock s3 of
            None \<Rightarrow> s3
          | Some _ \<Rightarrow> emit Sock_close s3))"

definition handle_signal :: "int \<Rightarrow> 'a base_audio_scheme \<Rightarrow> 'a base_audio_scheme" where
  "handle_signal signum s = shutdown (log_msg WARNING ''Received signal %d'' [Arg_int signum] s)"

text \<open>The command line: the interpreter the program is started with, and the options
  that reach the constructors. \<open>default_args\<close> is the parser's defaults on Python 2.\<close>

record args =
  arg_python :: interpreter
  arg_rate :: int
  arg_chunk_size :: int
  arg_channels :: int
  arg_device_index :: "int option"
  arg_duration :: int
  arg_host :: string
  arg_port :: int

definition default_args :: args where
  "default_args =
     \<lparr>arg_python = Python2, arg_rate = 44100, arg_chunk_size = 1024, arg_channels = 1, arg_device_index = None,
      arg_duration = 0, arg_host = [], arg_port = 50007\<rparr>"

text \<open>
  \<open>BaseAudio.__init__\<close>: stores the configuration, fixes the format to \<open>paInt16\<close>,
  creates the PyAudio instance and the socket and sets the socket's timeout.
\<close>

definition init_trace :: "event list" where
  "init_trace = [Audio_init, Sock_create, Sock_settimeout]"

subsection \<open>\<open>AudioReceiver\<close>\<close>

text \<open>
  A \<open>Wave_write\<close> object of the \<open>wave\<close> module: the file's name, the three header
  fields (0 until set) and the sample bytes written so far.
\<close>

record wave_write =
  wave_filename :: string
  nchannels :: int
  sampwidth :: nat
  framerate :: int
  frames :: bytes

record audio_receiver = base_audio +
  wf :: "wave_write option"

text \<open>The class attribute \<open>width = 2\<close>.\<close>

definition width :: nat where
  "width = 2"

definition AudioReceiver :: "args \<Rightarrow> audio_receiver" where
  "AudioReceiver a =
     \<lparr>python = arg_python a, chunk_size = arg_chunk_size a, channels = arg_channels a,
      device_index = arg_device_index a, duration = None, rate = arg_rate a,
      host = arg_host a, port = arg_port a, format = paInt16,
      audio = Some 0, sock = Some (), stream = None, trace = init_trace,
      wf = None\<rparr>"

text \<open>
  \<^verbatim>\<open>
  def open_audio_stream(self):
      self.stream = self.audio.open(format=self.audio.get_format_from_width(self.width),
                                    channels=self.channels, rate=self.rate, output=True,
                                    output_device_index=self.device_index,
                                    frames_per_buffer=self.chunk_size)
  \<close>
\<close>

definition rx_open_audio_stream :: "audio_receiver \<Rightarrow> result \<times> audio_receiver" where
  "rx_open_audio_stream r =
     (case audio r of
        None \<Rightarrow> (Raise (AttributeError ''NoneType''), r)
      | Some n \<Rightarrow>
          (case get_format_from_width width of
             None \<Rightarrow> (Raise ValueError, r)
           | Some fmt \<Rightarrow>
               (let st = \<lparr>stream_id = n, stream_format = fmt, stream_channels = channels r,
                          stream_rate = rate r, stream_input = False,
                          stream_device_index = device_index r,
                          frames_per_buffer = chunk_size r\<rparr>
                in (Normal, emit (Audio_open st) (r\<lparr>audio := Some (Suc n), stream := Some st\<rparr>)))))"

text \<open>
  What successive \<open>conn.recv(1024)\<close> calls on one connection return: data (empty
  once the peer has closed), or an exception. When the list is exhausted the call
  waits.
\<close>

datatype recv_result = Recv_data bytes | Recv_raises pyerror

text \<open>
  The \<open>while\<close> loop of \<open>receive_audio\<close>, entered with the data of the read before it:
  \<^verbatim>\<open>
  while data != '':
      self.stream.write(data)
      data = conn.recv(1024)
      self.log.debug("Frame %d" % frame_count)
      frame_count += 1
      if self.wf:
          # If list of frames then write like wf.writeframes(b''.join(frames))
          wf.writeframes(data)
  \<close>
  On Python 2 \<open>recv\<close> returns a \<open>str\<close>, and \<open>data != ''\<close> is false exactly when it is
  empty. On Python 3 \<open>recv\<close> returns a \<open>bytes\<close> object, which is never equal to a
  \<open>str\<close>: the test is true on every read, the empty one too.
  The name \<open>wf\<close> in the last line is not \<open>self.wf\<close>: it is neither a local variable nor
  a global of the module, and looking it up raises \<open>NameError\<close>.
\<close>

fun recv_loop ::
  "recv_result list \<Rightarrow> bytes \<Rightarrow> int \<Rightarrow> audio_receiver
     \<Rightarrow> result \<times> recv_result list \<times> audio_receiver" where
  "recv_loop conn dat frame_count r =
     (if python r = Python2 \<and> dat = [] then (Normal, conn, r)
      else
        (case on_stream (\<lambda>st. Stream_write (stream_id st) dat) r of
           (Normal, r1) \<Rightarrow>
             (case conn of
                [] \<Rightarrow> (Blocked, [], emit (Conn_recv 1024) r1)
              | Recv_raises e # conn' \<Rightarrow> (Raise e, conn', emit (Conn_recv 1024) r1)
              | Recv_data dat' # conn' \<Rightarrow>
                  (let r2 = log_msg DEBUG ''Frame %d'' [Arg_int frame_count]
                              (emit (Conn_recv 1024) r1)
                   in (case wf r2 of
                         Some w \<Rightarrow> (Raise (NameError ''wf''), conn', r2)
                       | None \<Rightarrow> recv_loop conn' dat' (frame_count + 1) r2)))
         | (res, r1) \<Rightarrow> (res, conn, r1)))"

text \<open>
  \<^verbatim>\<open>
  def receive_audio(self, conn):
      self.log.info("Receiving audio...")
      frame_count = 1
      self.open_audio_stream()
      data = conn.recv(1024)
      while data != '': ...
      self.log.info("Data stopped.")
      self.stream.stop_stream()
      self.stream.close()
  \<close>
  The second component of the result is what is left of the connection's script.
\<close>

definition receive_audio ::
  "recv_result list \<Rightarrow> audio_receiver \<Rightarrow> result \<times> recv_result list \<times> audio_receiver" where
  "receive_audio conn r0 =
     (case rx_open_audio_stream (log_msg INFO ''Receiving audio...'' [] r0) of
        (Normal, r1) \<Rightarrow>
          (case conn of
             [] \<Rightarrow> (Blocked, [], emit (Conn_recv 1024) r1)
           | Recv_raises e # conn' \<Rightarrow> (Raise e, conn', emit (Conn_recv 1024) r1)
           | Recv_data dat # conn' \<Rightarrow>
               (case recv_loop conn' dat 1 (emit (Conn_recv 1024) r1) of
                  (Normal, conn'', r2) \<Rightarrow>
                    (case and_then
                            (on_stream (\<lambda>st. Stream_stop (stream_id st))
                               (log_msg INFO ''Data stopped.'' [] r2))
                            (on_stream (\<lambda>st. Stream_close (stream_id st))) of
                       (res, r3) \<Rightarrow> (res, conn'', r3))
                | (res, conn'', r2) \<Rightarrow> (res, conn'', r2)))
      | (res, r1) \<Rightarrow> (res, conn, r1))"

text \<open>
  What one \<open>self.sock.accept()\<close> does: it times out, it raises \<open>socket.error\<close> with an
  errno, or it returns a connection (given by its script of reads) and the peer's address.
\<close>

datatype accept_result =
    Accept_timeout
  | Accept_error int
  | Accepted "recv_result list" "string \<times> int"

text \<open>
  The \<open>try\<close> statement of the accept loop, on the local variables \<open>conn, addr\<close>
  (\<open>None\<close> while unbound):
  \<^verbatim>\<open>
  try:
      conn, addr = self.sock.accept()
  except socket.timeout:
      continue
  except socket.error as e:
      if e.errno == errno.EINTR:
          # Interrupted system call - we're probably shutting down.
          break
  \<close>
  A \<open>socket.error\<close> with another errno is caught and the statement ends normally.
\<close>

datatype flow = Continue | Break | Fall_through

definition try_accept ::
  "accept_result \<Rightarrow> (recv_result list \<times> (string \<times> int)) option
     \<Rightarrow> flow \<times> (recv_result list \<times> (string \<times> int)) option" where
  "try_accept a cur =
     (case a of
        Accepted conn addr \<Rightarrow> (Fall_through, Some (conn, addr))
      | Accept_timeout \<Rightarrow> (Continue, cur)
      | Accept_error e \<Rightarrow> (if e = EINTR then (Break, cur) else (Fall_through, cur)))"

text \<open>
  The \<open>while True\<close> loop of \<open>listen_and_process\<close>; after the \<open>try\<close> statement:
  \<^verbatim>\<open>
      self.log.info("New connection from %s" % str(addr))
      self.receive_audio(conn)
  \<close>
  Reading \<open>addr\<close> while it is unbound raises \<open>UnboundLocalError\<close>.
\<close>

fun accept_loop ::
  "accept_result list \<Rightarrow> (recv_result list \<times> (string \<times> int)) option \<Rightarrow> audio_receiver
     \<Rightarrow> result \<times> audio_receiver" where
  "accept_loop [] cur r = (Blocked, emit Sock_accept r)"
| "accept_loop (a # script) cur r =
     (case try_accept a cur of
        (Continue, cur') \<Rightarrow> accept_loop script cur' (emit Sock_accept r)
      | (Break, cur') \<Rightarrow> (Normal, emit Sock_accept r)
      | (Fall_through, None) \<Rightarrow> (Raise (UnboundLocalError ''addr''), emit Sock_accept r)
      | (Fall_through, Some (conn, addr)) \<Rightarrow>
          (case receive_audio conn
                  (log_msg INFO ''New connection from %s'' [Arg_addr addr] (emit Sock_accept r)) of
             (Normal, conn', r') \<Rightarrow> accept_loop script (Some (conn', addr)) r'
           | (res, conn', r') \<Rightarrow> (res, r')))"

text \<open>
  \<^verbatim>\<open>
  def listen_and_process(self):
      self.sock.bind((self.host, self.port))
      self.sock.listen(1)
      self.log.info("Waiting for new connection...")
      while True: ...
  \<close>
\<close>

definition listen_and_process ::
  "accept_result list \<Rightarrow> audio_receiver \<Rightarrow> result \<times> audio_receiver" where
  "listen_and_process script r =
     and_then (and_then (on_sock (Sock_bind (host r) (port r)) r) (on_sock (Sock_listen 1)))
       (\<lambda>r'. accept_loop script None (log_msg INFO ''Waiting for new connection...'' [] r'))"

text \<open>
  \<^verbatim>\<open>
  def open_wave_file(self, filename=''):
      self.wf = wave.open(filename, 'wb')
      self.wf.setnchannels(self.channels)
      self.wf.setsampwidth(self.audio.get_sample_size(self.format))
      self.wf.setframerate(self.rate)
  \<close>
  The setters of \<open>wave\<close> raise \<open>wave.Error\<close> on a channel count below 1, a sample width
  outside 1..4 and a frame rate that is not positive.
\<close>

definition open_wave_file :: "string \<Rightarrow> audio_receiver \<Rightarrow> result \<times> audio_receiver" where
  "open_wave_file filename r0 =
     (let w0 = \<lparr>wave_filename = filename, nchannels = 0, sampwidth = 0, framerate = 0,
                frames = []\<rparr>;
          r1 = r0\<lparr>wf := Some w0\<rparr>
      in if channels r1 < 1 then (Raise Wave_Error, r1)
         else
           (let w1 = w0\<lparr>nchannels := channels r1\<rparr>; r2 = r1\<lparr>wf := Some w1\<rparr>
            in (case audio r2 of
                  None \<Rightarrow> (Raise (AttributeError ''NoneType''), r2)
                | Some _ \<Rightarrow>
                    (let sw = get_sample_size (format r2)
                     in if sw < 1 \<or> 4 < sw then (Raise Wave_Error, r2)
                        else
                          (let w2 = w1\<lparr>sampwidth := sw\<rparr>; r3 = r2\<lparr>wf := Some w2\<rparr>
                           in if rate r3 \<le> 0 then (Raise Wave_Error, r3)
                              else (Normal, r3\<lparr>wf := Some (w2\<lparr>framerate := rate r3\<rparr>)\<rparr>))))))"

text \<open>
  The receive branch of the main program:
  \<^verbatim>\<open>
  try:
      rx = AudioReceiver(channels=args.channels, ...)
      signal.signal(signal.SIGINT, rx.handle_signal)
      signal.signal(signal.SIGTERM, rx.handle_signal)
      rx.listen_and_process()
  except KeyboardInterrupt:
      rx.log.warning("Received KeyboardInterrupt")
      rx.shutdown()
  \<close>
\<close>

definition main_rx :: "args \<Rightarrow> accept_result list \<Rightarrow> result \<times> audio_receiver" where
  "main_rx a script =
     (case listen_and_process script (AudioReceiver a) of
        (Raise KeyboardInterrupt, rx) \<Rightarrow>
          (Normal, shutdown (log_msg WARNING ''Received KeyboardInterrupt'' [] rx))
      | (res, rx) \<Rightarrow> (res, rx))"

subsection \<open>Python 3 floats\<close>

text \<open>
  A Python 3 \<open>float\<close> is an IEEE 754 double: a sign, a significand of 53 bits and a
  power of two. A finite double is represented by the rational number it stands for.
  \<open>fl x\<close> is the double nearest to \<open>x\<close>, ties going to the even significand, before
  the largest double is taken into account; a result of magnitude \<open>2^1024\<close> or more is
  beyond it.
\<close>

text \<open>\<open>ilog2 n\<close> is the integer part of the binary logarithm of \<open>n \<ge> 1\<close>.\<close>

fun ilog2 :: "nat \<Rightarrow> nat" where
  "ilog2 n = (if n < 2 then 0 else Suc (ilog2 (n div 2)))"

declare ilog2.simps [simp del]

text \<open>For \<open>a > 0\<close>, the \<open>e\<close> with \<open>2^e \<le> a < 2^(e+1)\<close>.\<close>

definition binade :: "rat \<Rightarrow> int" where
  "binade a =
     (if 1 \<le> a then int (ilog2 (nat \<lfloor>a\<rfloor>))
      else - int (ilog2 (nat (\<lceil>1 / a\<rceil> - 1))) - 1)"

definition pow2 :: "int \<Rightarrow> rat" where
  "pow2 e = (if 0 \<le> e then 2 ^ nat e else 1 / 2 ^ nat (- e))"

definition round_half_even :: "rat \<Rightarrow> int" where
  "round_half_even x =
     (let f = \<lfloor>x\<rfloor>; r = x - of_int f
      in if r < 1 / 2 then f
         else if 1 / 2 < r then f + 1
         else if even f then f else f + 1)"

text \<open>Below \<open>2^-1022\<close> doubles are subnormal: their spacing stays \<open>2^-1074\<close>.\<close>

definition fl :: "rat \<Rightarrow> rat" where
  "fl x =
     (if x = 0 then 0
      else
        (let a = \<bar>x\<bar>; e = max (binade a) (- 1022); u = pow2 (e - 52)
         in sgn x * of_int (round_half_even (a / u)) * u))"

definition beyond_double :: "rat \<Rightarrow> bool" where
  "beyond_double x = (2 ^ 1024 \<le> \<bar>x\<bar>)"

text \<open>\<open>int(x)\<close> of a float: the fraction is dropped.\<close>

definition py_int :: "rat \<Rightarrow> int" where
  "py_int x = (if x < 0 then \<lceil>x\<rceil> else \<lfloor>x\<rfloor>)"

subsection \<open>\<open>AudioSender\<close>\<close>

definition AudioSender :: "args \<Rightarrow> base_audio" where
  "AudioSender a =
     \<lparr>python = arg_python a, chunk_size = arg_chunk_size a, channels = arg_channels a,
      device_index = arg_device_index a, duration = Some (arg_duration a),
      rate = arg_rate a, host = arg_host a, port = arg_port a, format = paInt16,
      audio = Some 0, sock = Some (), stream = None, trace = init_trace\<rparr>"

definition socket_connect :: "base_audio \<Rightarrow> result \<times> base_audio" where
  "socket_connect s = on_sock (Sock_connect (host s) (port s)) s"

text \<open>
  \<^verbatim>\<open>
  def open_audio_stream(self):
      self.stream = self.audio.open(format=self.format, channels=self.channels,
                                    rate=self.rate, input=True,
                                    input_device_index=self.device_index,
                                    frames_per_buffer=self.chunk_size)
  \<close>
\<close>

definition tx_open_audio_stream :: "base_audio \<Rightarrow> result \<times> base_audio" where
  "tx_open_audio_stream s =
     (case audio s of
        None \<Rightarrow> (Raise (AttributeError ''NoneType''), s)
      | Some n \<Rightarrow>
          (let st = \<lparr>stream_id = n, stream_format = format s, stream_channels = channels s,
                     stream_rate = rate s, stream_input = True,
                     stream_device_index = device_index s,
                     frames_per_buffer = chunk_size s\<rparr>
           in (Normal, emit (Audio_open st) (s\<lparr>audio := Some (Suc n), stream := Some st\<rparr>))))"

text \<open>
  What the outside world does during one \<open>send_frame\<close>: the capture read returns data
  and the socket write succeeds; the read returns data and the write raises (a
  \<open>socket.timeout\<close> when the peer is too slow for the socket's timeout, or another
  \<open>socket.error\<close>); or the read raises.
\<close>

datatype frame_io =
    Frame bytes
  | Send_raises bytes pyerror
  | Read_raises pyerror

text \<open>
  \<^verbatim>\<open>
  def send_frame(self):
      data = self.stream.read(self.chunk_size)
      self.sock.sendall(data)
  \<close>
\<close>

definition send_frame :: "frame_io \<Rightarrow> base_audio \<Rightarrow> result \<times> base_audio" where
  "send_frame io s =
     (case io of
        Read_raises e \<Rightarrow>
          and_then (on_stream (\<lambda>st. Stream_read_raised st (chunk_size s) e) s)
            (\<lambda>s'. (Raise e, s'))
      | Frame dat \<Rightarrow>
          and_then (on_stream (\<lambda>st. Stream_read st (chunk_size s) dat) s)
            (on_sock (Sock_sendall dat))
      | Send_raises dat e \<Rightarrow>
          and_then
            (and_then (on_stream (\<lambda>st. Stream_read st (chunk_size s) dat) s)
               (on_sock (Sock_sendall_raised dat e)))
            (\<lambda>s'. (Raise e, s')))"

text \<open>
  \<^verbatim>\<open>
  def send_frames_continuously(self):
      while True:
          self.send_frame()
  \<close>
\<close>

fun send_frames_continuously :: "frame_io list \<Rightarrow> base_audio \<Rightarrow> result \<times> base_audio" where
  "send_frames_continuously [] s = (Blocked, s)"
| "send_frames_continuously (io # script) s =
     and_then (send_frame io s) (send_frames_continuously script)"

text \<open>The \<open>for\<close> loop over \<open>range(0, n)\<close> with the body \<open>self.send_frame()\<close>.\<close>

fun send_frames :: "nat \<Rightarrow> frame_io list \<Rightarrow> base_audio \<Rightarrow> result \<times> base_audio" where
  "send_frames 0 script s = (Normal, s)"
| "send_frames (Suc n) [] s = (Blocked, s)"
| "send_frames (Suc n) (io # script) s =
     and_then (send_frame io s) (send_frames n script)"

text \<open>
  \<^verbatim>\<open>
  def send_frames_with_time_limit(self, duration):
      for i in range(0, int(self.rate / self.chunk_size * duration)):
          self.send_frame()
  \<close>
  All three operands are \<open>int\<close>s, the parser's \<open>type=int\<close>. \<open>num_frames\<close> is the bound of
  the range.

  On Python 2, \<open>/\<close> is floor division, the product is an integer and \<open>int\<close> changes
  nothing.

  On Python 3, \<open>/\<close> is true division: the quotient is the double nearest to the exact
  quotient, \<open>duration\<close> is converted to the double nearest to it, the product is
  rounded to a double again, and \<open>int\<close> drops the fraction. A quotient or a conversion
  beyond the largest double raises \<open>OverflowError\<close>; a product beyond it is infinite,
  and \<open>int\<close> of it raises \<open>OverflowError\<close>.

  On both, a zero divisor raises \<open>ZeroDivisionError\<close>, and the range is empty when its
  bound is not positive.
\<close>

definition num_frames :: "interpreter \<Rightarrow> int \<Rightarrow> int \<Rightarrow> int \<Rightarrow> pyerror + int" where
  "num_frames py r c d =
     (if c = 0 then Inl ZeroDivisionError
      else
        (case py of
           Python2 \<Rightarrow> Inr (r div c * d)
         | Python3 \<Rightarrow>
             (let q = fl (of_int r / of_int c)
              in if beyond_double q then Inl OverflowError
                 else
                   (let f = fl (of_int d)
                    in if beyond_double f then Inl OverflowError
                       else
                         (let p = fl (q * f)
                          in if beyond_double p then Inl OverflowError
                             else Inr (py_int p))))))"

definition send_frames_with_time_limit ::
  "int \<Rightarrow> frame_io list \<Rightarrow> base_audio \<Rightarrow> result \<times> base_audio" where
  "send_frames_with_time_limit d script s =
     (case num_frames (python s) (rate s) (chunk_size s) d of
        Inl e \<Rightarrow> (Raise e, s)
      | Inr n \<Rightarrow> send_frames (nat n) script s)"

text \<open>
  \<^verbatim>\<open>
  def start_sending(self):
      self.log.info("Opening socket connection")
      self.socket_connect()
      self.log.info("Opening audio stream")
      self.open_audio_stream()
      self.log.info("Begin audio capture")
      if self.duration:
          self.send_frames_with_time_limit(self.duration)
      else:
          self.send_frames_continuously()
      self.log.info("Finished audio capture")
  \<close>
  \<open>None\<close> and \<open>0\<close> are false, every other integer is true.
\<close>

definition start_sending :: "frame_io list \<Rightarrow> base_audio \<Rightarrow> result \<times> base_audio" where
  "start_sending script s0 =
     and_then
       (and_then
          (and_then
             (and_then (socket_connect (log_msg INFO ''Opening socket connection'' [] s0))
                (\<lambda>s. tx_open_audio_stream (log_msg INFO ''Opening audio stream'' [] s)))
             (\<lambda>s. (Normal, log_msg INFO ''Begin audio capture'' [] s)))
          (\<lambda>s. case duration s of
                  None \<Rightarrow> send_frames_continuously script s
                | Some d \<Rightarrow>
                    if d \<noteq> 0 then send_frames_with_time_limit d script s
                    else send_frames_continuously script s))
       (\<lambda>s. (Normal, log_msg INFO ''Finished audio capture'' [] s))"

definition stop_sending :: "base_audio \<Rightarrow> base_audio" where
  "stop_sending s = shutdown (log_msg INFO ''Stopping'' [] s)"

text \<open>
  The transmit branch of the main program:
  \<^verbatim>\<open>
  try:
      tx = AudioSender(duration=args.duration, ...)
      signal.signal(signal.SIGINT, tx.handle_signal)
      signal.signal(signal.SIGTERM, tx.handle_signal)
      tx.start_sending()
      tx.stop_senddng()
  except KeyboardInterrupt:
      tx.log.warning("Received KeyboardInterrupt")
      tx.stop_sending()
  \<close>
  \<open>AudioSender\<close> has no attribute \<open>stop_senddng\<close>: the call after \<open>start_sending\<close>
  raises \<open>AttributeError\<close>, which the \<open>except\<close> clause does not catch.
\<close>

definition main_tx :: "args \<Rightarrow> frame_io list \<Rightarrow> result \<times> base_audio" where
  "main_tx a script =
     (case start_sending script (AudioSender a) of
        (Normal, tx) \<Rightarrow> (Raise (AttributeError ''stop_senddng''), tx)
      | (Raise KeyboardInterrupt, tx) \<Rightarrow>
          (Normal, stop_sending (log_msg WARNING ''Received KeyboardInterrupt'' [] tx))
      | (res, tx) \<Rightarrow> (res, tx))"

subsection \<open>Observations on a trace\<close>

text \<open>The chunks written to the socket, in order: the payloads of the \<open>sendall\<close> calls
  that succeeded.\<close>

fun sent :: "event list \<Rightarrow> bytes list" where
  "sent [] = []"
| "sent (Sock_sendall bs # es) = bs # sent es"
| "sent (_ # es) = sent es"

text \<open>The chunks written to the playback device, in order.\<close>

fun played :: "event list \<Rightarrow> bytes list" where
  "played [] = []"
| "played (Stream_write n bs # es) = bs # played es"
| "played (_ # es) = played es"

text \<open>The calls that release a handle: closing a stream, terminating PyAudio, closing
  the socket.\<close>

fun is_release :: "event \<Rightarrow> bool" where
  "is_release (Stream_close n) = True"
| "is_release Audio_terminate = True"
| "is_release Sock_close = True"
| "is_release _ = False"

definition releases :: "event list \<Rightarrow> event list" where
  "releases es = filter is_release es"

text \<open>The release calls one \<open>shutdown\<close> makes in state \<open>s\<close>: one for each handle that
  is not \<open>None\<close>.\<close>

definition held :: "'a base_audio_scheme \<Rightarrow> event list" where
  "held s =
     (case stream s of None \<Rightarrow> [] | Some st \<Rightarrow> [Stream_close (stream_id st)]) @
     (case audio s of None \<Rightarrow> [] | Some _ \<Rightarrow> [Audio_terminate]) @
     (case sock s of None \<Rightarrow> [] | Some _ \<Rightarrow> [Sock_close])"

text \<open>
  PyAudio's contract for a blocking capture read: a read of \<open>n\<close> frames returns \<open>n\<close>
  frames, each of one sample per channel, each sample of the format's size.
\<close>

fun full_read :: "event \<Rightarrow> bool" where
  "full_read (Stream_read st n bs) =
     (length bs = nat n * nat (stream_channels st) * get_sample_size (stream_format st))"
| "full_read _ = True"




subsection \<open>The handles behind the objects\<close>

text \<open>
  What PyAudio and the socket module do with the operating system's handles when a call
  reaches them. Neither is part of the repository; this is their behaviour as the
  program relies on it.
  \<^item> \<open>Stream.stop_stream\<close> returns at once when the stream is not running, and otherwise
    stops it; it frees nothing.
  \<^item> \<open>Stream.close\<close> frees the PortAudio stream when it is still open, and does nothing
    when it has been closed.
  \<^item> \<open>PyAudio.terminate\<close> closes the streams of the instance that are still open, and
    terminates PortAudio when it has not been terminated.
  \<^item> \<open>socket.close\<close> closes the descriptor when it is still open, and does nothing
    otherwise.
  \<^item> A read or a write on a stream that is not open raises \<open>IOError\<close>, opening a stream
    after \<open>terminate\<close> raises \<open>IOError\<close>, and any other call on a closed socket raises
    \<open>socket.error\<close> with \<open>EBADF\<close>.

  The state of the handles: the streams that are open, whether PortAudio is initialised,
  whether the socket's descriptor is open, and the handles freed so far, each named by
  the call that frees it.
\<close>

record handles =
  streams_open :: "nat list"
  portaudio_up :: bool
  socket_up :: bool
  freed :: "event list"

fun perform :: "event \<Rightarrow> handles \<Rightarrow> pyerror + handles" where
  "perform (Stream_stop k) h = Inr h"
| "perform (Stream_close k) h =
     Inr (if k \<in> set (streams_open h)
          then h\<lparr>streams_open := removeAll k (streams_open h),
                 freed := freed h @ [Stream_close k]\<rparr>
          else h)"
| "perform Audio_terminate h =
     Inr (h\<lparr>streams_open := [], portaudio_up := False,
            freed := freed h @ map Stream_close (remdups (streams_open h)) @
                     (if portaudio_up h then [Audio_terminate] else [])\<rparr>)"
| "perform Sock_close h =
     Inr (if socket_up h then h\<lparr>socket_up := False, freed := freed h @ [Sock_close]\<rparr> else h)"
| "perform (Audio_open st) h =
     (if portaudio_up h then Inr (h\<lparr>streams_open := stream_id st # streams_open h\<rparr>)
      else Inl IOError)"
| "perform (Stream_read st n bs) h =
     (if stream_id st \<in> set (streams_open h) then Inr h else Inl IOError)"
| "perform (Stream_write k bs) h =
     (if k \<in> set (streams_open h) then Inr h else Inl IOError)"
| "perform (Sock_bind a p) h = (if socket_up h then Inr h else Inl (Socket_error EBADF))"
| "perform (Sock_listen n) h = (if socket_up h then Inr h else Inl (Socket_error EBADF))"
| "perform Sock_accept h = (if socket_up h then Inr h else Inl (Socket_error EBADF))"
| "perform (Sock_connect a p) h = (if socket_up h then Inr h else Inl (Socket_error EBADF))"
| "perform (Sock_sendall bs) h = (if socket_up h then Inr h else Inl (Socket_error EBADF))"
| "perform _ h = Inr h"

text \<open>A sequence of calls, up to the first that raises.\<close>

fun perform_all :: "event list \<Rightarrow> handles \<Rightarrow> pyerror + handles" where
  "perform_all [] h = Inr h"
| "perform_all (e # es) h =
     (case perform e h of Inl x \<Rightarrow> Inl x | Inr h' \<Rightarrow> perform_all es h')"


subsection \<open>The chunk counts of the specification\<close>

text \<open>
  The two counts the specification gives for a sender with a duration limit:
  \<open>round(rate/chunk_size \<times> D)\<close> and \<open>ceil(rate/chunk_size \<times> duration)\<close>, on the exact
  quotient.
\<close>

definition spec_round_count :: "int \<Rightarrow> int \<Rightarrow> int \<Rightarrow> int" where
  "spec_round_count r c d = round (of_int r / of_int c * of_int d :: rat)"

definition spec_ceil_count :: "int \<Rightarrow> int \<Rightarrow> int \<Rightarrow> int" where
  "spec_ceil_count r c d = \<lceil>of_int r / of_int c * of_int d :: rat\<rceil>"

subsection \<open>Expected traces\<close>

text \<open>The events of successive \<open>send_frame\<close> calls on stream \<open>st\<close>, each asking for
  \<open>n\<close> frames, when the reads return \<open>ds\<close> and every write succeeds.\<close>

definition frame_events :: "pa_stream \<Rightarrow> int \<Rightarrow> bytes list \<Rightarrow> event list" where
  "frame_events st n ds = concat (map (\<lambda>d. [Stream_read st n d, Sock_sendall d]) ds)"

text \<open>The capture stream \<open>AudioSender.open_audio_stream\<close> opens as the stream number
  \<open>k\<close>, and the sender after the first five statements of \<open>start_sending\<close>.\<close>

definition tx_stream :: "base_audio \<Rightarrow> nat \<Rightarrow> pa_stream" where
  "tx_stream s k =
     \<lparr>stream_id = k, stream_format = format s, stream_channels = channels s,
      stream_rate = rate s, stream_input = True, stream_device_index = device_index s,
      frames_per_buffer = chunk_size s\<rparr>"

definition tx_started :: "base_audio \<Rightarrow> nat \<Rightarrow> base_audio" where
  "tx_started s k =
     s\<lparr>audio := Some (Suc k), stream := Some (tx_stream s k),
       trace := trace s @
         [Log INFO ''Opening socket connection'' [], Sock_connect (host s) (port s),
          Log INFO ''Opening audio stream'' [], Audio_open (tx_stream s k),
          Log INFO ''Begin audio capture'' []]\<rparr>"

text \<open>The playback stream \<open>AudioReceiver.open_audio_stream\<close> opens as the stream number
  \<open>k\<close>.\<close>

definition rx_stream :: "audio_receiver \<Rightarrow> nat \<Rightarrow> pa_stream" where
  "rx_stream r k =
     \<lparr>stream_id = k, stream_format = paInt16, stream_channels = channels r,
      stream_rate = rate r, stream_input = False, stream_device_index = device_index r,
      frames_per_buffer = chunk_size r\<rparr>"

text \<open>The events of the receive loop on playback stream \<open>k\<close> for the chunks \<open>cs\<close>, the
  frame counter starting at \<open>i\<close>: each chunk is written, then the next read is made and
  logged.\<close>

fun loop_events :: "nat \<Rightarrow> int \<Rightarrow> bytes list \<Rightarrow> event list" where
  "loop_events k i [] = []"
| "loop_events k i (c # cs) =
     [Stream_write k c, Conn_recv 1024, Log DEBUG ''Frame %d'' [Arg_int i]] @
     loop_events k (i + 1) cs"

text \<open>All the events of one handler run that reads the chunks \<open>cs\<close> and then an empty
  string.\<close>

definition handler_events :: "audio_receiver \<Rightarrow> nat \<Rightarrow> bytes list \<Rightarrow> event list" where
  "handler_events r k cs =
     [Log INFO ''Receiving audio...'' [], Audio_open (rx_stream r k), Conn_recv 1024] @
     loop_events k 1 cs @
     [Log INFO ''Data stopped.'' [], Stream_stop k, Stream_close k]"

section \<open>The echo property\<close>

lemma handle_calls:
  "calls (handle (new_request addr inp)) =
     [Request_recv 1024,
      Print_str (fst addr @ '' wrote:''),
      Print_bytes (strip (take 1024 inp)),
      Request_sendall (strip (take 1024 inp))]"
  by (simp add: handle_def new_request_def request_recv_def print_str_def
      print_bytes_def request_sendall_def)

lemma echoed_strip: "echoed addr inp = strip (take 1024 inp)"
  by (simp add: echoed_def handle_calls)

lemma lstrip_id: "bs = [] \<or> \<not> isspace (hd bs) \<Longrightarrow> lstrip bs = bs"
  by (cases bs) (auto simp: lstrip_def)

lemma rstrip_id: "bs = [] \<or> \<not> isspace (last bs) \<Longrightarrow> rstrip bs = bs"
proof (cases "bs = []")
  case True
  then show ?thesis by (simp add: rstrip_def)
next
  case False
  assume "bs = [] \<or> \<not> isspace (last bs)"
  with False have "\<not> isspace (hd (rev bs))" by (simp add: hd_rev)
  moreover from False have "rev bs \<noteq> []" by simp
  ultimately have "dropWhile isspace (rev bs) = rev bs"
    by (cases "rev bs") auto
  then show ?thesis by (simp add: rstrip_def)
qed

text \<open>
  C2 (counterexample). The client sends the three bytes \<open>h i \n\<close>; the server sends back
  the two bytes \<open>h i\<close>: the trailing line feed is stripped, so the bytes returned differ
  from the bytes sent.
\<close>

theorem C2_echo_unmodified_counterexample:
  "length [104, 105, 10 :: 8 word] \<le> 1024 \<and>
   echoed (''10.0.0.1'', 40000) [104, 105, 10] = [104, 105] \<and>
   echoed (''10.0.0.1'', 40000) [104, 105, 10] \<noteq> [104, 105, 10]"
  by (simp add: echoed_strip strip_def lstrip_def rstrip_def isspace_def)

text \<open>
  C2 (amended). For every input of at most 1024 bytes the bytes returned are the bytes
  sent with leading and trailing ASCII whitespace stripped; they equal the bytes sent,
  unmodified, whenever the input neither begins nor ends with a whitespace byte; and the
  server prints the sender's address before it responds: the calls of the handler are, in
  order, the read, the print of the address, the print of the data and the reply.
\<close>

theorem C2_echo_stripped:
  assumes "length inp \<le> 1024"
  shows "echoed addr inp = strip inp \<and>
         (inp = [] \<or> (\<not> isspace (hd inp) \<and> \<not> isspace (last inp))
            \<longrightarrow> echoed addr inp = inp) \<and>
         calls (handle (new_request addr inp)) =
           [Request_recv 1024, Print_str (fst addr @ '' wrote:''),
            Print_bytes (strip inp), Request_sendall (strip inp)]"
proof -
  from assms have t: "take 1024 inp = inp" by simp
  have stripped: "echoed addr inp = strip inp" by (simp add: echoed_strip t)
  have order: "calls (handle (new_request addr inp)) =
           [Request_recv 1024, Print_str (fst addr @ '' wrote:''),
            Print_bytes (strip inp), Request_sendall (strip inp)]"
    by (simp add: handle_calls t)
  have same: "echoed addr inp = inp"
    if "inp = [] \<or> (\<not> isspace (hd inp) \<and> \<not> isspace (last inp))"
  proof -
    from that have l: "lstrip inp = inp" by (auto intro: lstrip_id)
    from that have r: "rstrip inp = inp" by (auto intro: rstrip_id)
    show ?thesis by (simp add: echoed_strip t strip_def l r)
  qed
  from stripped order same show ?thesis by blast
qed

theorem C2_echo_stripped_witness:
  "echoed (''10.0.0.1'', 40000) [104, 105] = [104, 105] \<and>
   calls (handle (new_request (''10.0.0.1'', 40000) [104, 105])) =
     [Request_recv 1024, Print_str ''10.0.0.1 wrote:'',
      Print_bytes [104, 105], Request_sendall [104, 105]]"
proof -
  have a: "length [104, 105 :: 8 word] \<le> 1024" by simp
  have c: "[104, 105 :: 8 word] = [] \<or>
           (\<not> isspace (hd [104, 105]) \<and> \<not> isspace (last [104, 105]))"
    by (simp add: isspace_def)
  have s: "strip [104, 105] = [104, 105]"
    by (simp add: strip_def lstrip_def rstrip_def isspace_def)
  show ?thesis
    using C2_echo_stripped [OF a, of "(''10.0.0.1'', 40000)"] c
    by (simp add: s)
qed

section \<open>The sender\<close>

lemmas step_defs = emit_def log_msg_def on_stream_def on_sock_def and_then_def

lemma sent_append: "sent (xs @ ys) = sent xs @ sent ys"
  by (induction xs rule: sent.induct) simp_all

lemma sent_frame_events: "sent (frame_events st n ds) = ds"
  by (induction ds) (simp_all add: frame_events_def)

lemma send_frame_ok:
  "stream s = Some st \<Longrightarrow> sock s = Some u \<Longrightarrow>
   send_frame (Frame d) s =
     (Normal, s\<lparr>trace := trace s @ [Stream_read st (chunk_size s) d, Sock_sendall d]\<rparr>)"
  by (simp add: send_frame_def step_defs)

lemma send_frames_ok:
  "stream s = Some st \<Longrightarrow> sock s = Some u \<Longrightarrow> length ds = n \<Longrightarrow>
   send_frames n (map Frame ds @ rest) s =
     (Normal, s\<lparr>trace := trace s @ frame_events st (chunk_size s) ds\<rparr>)"
proof (induction ds arbitrary: n s)
  case Nil
  then show ?case by (simp add: frame_events_def)
next
  case (Cons d ds)
  then obtain m where n: "n = Suc m" and m: "length ds = m" by (cases n) auto
  let ?s1 = "s\<lparr>trace := trace s @ [Stream_read st (chunk_size s) d, Sock_sendall d]\<rparr>"
  have "send_frames m (map Frame ds @ rest) ?s1 =
     (Normal, ?s1\<lparr>trace := trace ?s1 @ frame_events st (chunk_size ?s1) ds\<rparr>)"
    using Cons.prems m by (intro Cons.IH) simp_all
  then show ?case
    using Cons.prems by (simp add: n send_frame_ok and_then_def frame_events_def)
qed

lemma send_continuously_ok:
  "stream s = Some st \<Longrightarrow> sock s = Some u \<Longrightarrow>
   send_frames_continuously (map Frame ds) s =
     (Blocked, s\<lparr>trace := trace s @ frame_events st (chunk_size s) ds\<rparr>)"
proof (induction ds arbitrary: s)
  case Nil
  then show ?case by (simp add: frame_events_def)
next
  case (Cons d ds)
  let ?s1 = "s\<lparr>trace := trace s @ [Stream_read st (chunk_size s) d, Sock_sendall d]\<rparr>"
  have "send_frames_continuously (map Frame ds) ?s1 =
     (Blocked, ?s1\<lparr>trace := trace ?s1 @ frame_events st (chunk_size ?s1) ds\<rparr>)"
    using Cons.prems by (intro Cons.IH) simp_all
  then show ?case
    using Cons.prems by (simp add: send_frame_ok and_then_def frame_events_def)
qed

text \<open>The continuous loop never returns normally: it waits or it raises.\<close>

lemma send_continuously_not_normal: "fst (send_frames_continuously script s) \<noteq> Normal"
proof (induction script arbitrary: s)
  case Nil
  then show ?case by simp
next
  case (Cons io script)
  show ?case
  proof (cases "send_frame io s")
    case (Pair res s')
    with Cons show ?thesis by (cases res) (simp_all add: and_then_def)
  qed
qed

text \<open>\<open>start_sending\<close> up to the choice between the two loops.\<close>

lemma and_then_Normal: "and_then (Normal, s) f = f s"
  by (simp add: and_then_def)

lemma tx_setup:
  assumes "sock s = Some u" and "audio s = Some k"
  shows "and_then
           (and_then (socket_connect (log_msg INFO ''Opening socket connection'' [] s))
              (\<lambda>s. tx_open_audio_stream (log_msg INFO ''Opening audio stream'' [] s)))
           (\<lambda>s. (Normal, log_msg INFO ''Begin audio capture'' [] s)) =
         (Normal, tx_started s k)"
  using assms
  by (simp add: socket_connect_def tx_open_audio_stream_def step_defs
      tx_started_def tx_stream_def Let_def)

lemma tx_started_duration: "duration (tx_started s k) = duration s"
  by (simp add: tx_started_def)

lemma start_sending_started:
  assumes "sock s = Some u" and "audio s = Some k"
  shows "start_sending script s =
     and_then
       (case duration s of
          None \<Rightarrow> send_frames_continuously script (tx_started s k)
        | Some d \<Rightarrow>
            if d \<noteq> 0 then send_frames_with_time_limit d script (tx_started s k)
            else send_frames_continuously script (tx_started s k))
       (\<lambda>s. (Normal, log_msg INFO ''Finished audio capture'' [] s))"
  unfolding start_sending_def tx_setup [OF assms] and_then_Normal tx_started_duration
  by (rule refl)

lemma tx_started_fields:
  "stream (tx_started s k) = Some (tx_stream s k)"
  "sock (tx_started s k) = sock s"
  "chunk_size (tx_started s k) = chunk_size s"
  "rate (tx_started s k) = rate s"
  "python (tx_started s k) = python s"
  "sent (trace (tx_started s k)) = sent (trace s)"
  by (simp_all add: tx_started_def sent_append)

lemma start_sending_limit:
  assumes "duration s = Some d" and "d \<noteq> 0"
    and "num_frames (python s) (rate s) (chunk_size s) d = Inr n"
    and "sock s = Some u" and "audio s = Some k"
    and "length ds = nat n"
  shows "start_sending (map Frame ds @ rest) s =
     (Normal, log_msg INFO ''Finished audio capture'' []
        ((tx_started s k)\<lparr>trace := trace (tx_started s k) @
            frame_events (tx_stream s k) (chunk_size s) ds\<rparr>))"
proof -
  have "send_frames (nat n) (map Frame ds @ rest) (tx_started s k) =
        (Normal, (tx_started s k)\<lparr>trace := trace (tx_started s k) @
            frame_events (tx_stream s k) (chunk_size (tx_started s k)) ds\<rparr>)"
    using assms by (intro send_frames_ok) (simp_all add: tx_started_fields)
  then show ?thesis
    using assms
    by (simp add: start_sending_started send_frames_with_time_limit_def tx_started_fields
        and_then_def)
qed

lemma start_sending_continuous:
  assumes "duration s = Some 0 \<or> duration s = None"
    and "sock s = Some u" and "audio s = Some k"
  shows "start_sending (map Frame ds) s =
     (Blocked, (tx_started s k)\<lparr>trace := trace (tx_started s k) @
            frame_events (tx_stream s k) (chunk_size s) ds\<rparr>)"
    and "fst (start_sending script s) \<noteq> Normal"
proof -
  have c: "send_frames_continuously (map Frame ds) (tx_started s k) =
        (Blocked, (tx_started s k)\<lparr>trace := trace (tx_started s k) @
            frame_events (tx_stream s k) (chunk_size (tx_started s k)) ds\<rparr>)"
    using assms by (intro send_continuously_ok) (simp_all add: tx_started_fields)
  from assms(1) show "start_sending (map Frame ds) s =
     (Blocked, (tx_started s k)\<lparr>trace := trace (tx_started s k) @
            frame_events (tx_stream s k) (chunk_size s) ds\<rparr>)"
    using assms(2,3) c
    by (auto simp: start_sending_started tx_started_fields and_then_def)
  have "fst (send_frames_continuously script (tx_started s k)) \<noteq> Normal"
    by (rule send_continuously_not_normal)
  then show "fst (start_sending script s) \<noteq> Normal"
    using assms
    by (cases "send_frames_continuously script (tx_started s k)")
       (auto simp: start_sending_started and_then_def split: result.splits)
qed

lemma AudioSender_fields:
  "sock (AudioSender a) = Some ()"
  "audio (AudioSender a) = Some 0"
  "stream (AudioSender a) = None"
  "duration (AudioSender a) = Some (arg_duration a)"
  "python (AudioSender a) = arg_python a"
  "chunk_size (AudioSender a) = arg_chunk_size a"
  "channels (AudioSender a) = arg_channels a"
  "rate (AudioSender a) = arg_rate a"
  "format (AudioSender a) = paInt16"
  "trace (AudioSender a) = init_trace"
  by (simp_all add: AudioSender_def)

lemma sent_init_trace: "sent init_trace = []"
  by (simp add: init_trace_def)

lemma releases_append: "releases (xs @ ys) = releases xs @ releases ys"
  by (simp add: releases_def)

lemma releases_frame_events: "releases (frame_events st n ds) = []"
  by (induction ds) (simp_all add: frame_events_def releases_def)

lemma releases_tx_started: "releases (trace (tx_started s k)) = releases (trace s)"
  by (simp add: tx_started_def releases_def)

text \<open>The sender with a duration limit, when every read and write succeeds.\<close>

lemma limited_run:
  assumes "arg_duration a \<noteq> 0"
    and "num_frames (arg_python a) (arg_rate a) (arg_chunk_size a) (arg_duration a) = Inr n"
    and "length ds = nat n"
  shows "fst (start_sending (map Frame ds @ rest) (AudioSender a)) = Normal"
    and "sent (trace (snd (start_sending (map Frame ds @ rest) (AudioSender a)))) = ds"
    and "releases (trace (snd (start_sending (map Frame ds @ rest) (AudioSender a)))) = []"
    and "held (snd (start_sending (map Frame ds @ rest) (AudioSender a))) =
           [Stream_close 0, Audio_terminate, Sock_close]"
proof -
  let ?s = "AudioSender a"
  have run: "start_sending (map Frame ds @ rest) ?s =
     (Normal, log_msg INFO ''Finished audio capture'' []
        ((tx_started ?s 0)\<lparr>trace := trace (tx_started ?s 0) @
            frame_events (tx_stream ?s 0) (chunk_size ?s) ds\<rparr>))"
    using assms by (intro start_sending_limit) (simp_all add: AudioSender_fields)
  show "fst (start_sending (map Frame ds @ rest) ?s) = Normal"
    by (simp add: run)
  show "sent (trace (snd (start_sending (map Frame ds @ rest) ?s))) = ds"
    by (simp add: run log_msg_def emit_def sent_append sent_frame_events
        tx_started_fields AudioSender_fields sent_init_trace)
  show "releases (trace (snd (start_sending (map Frame ds @ rest) ?s))) = []"
    by (simp add: run log_msg_def emit_def releases_append releases_frame_events
        releases_tx_started AudioSender_fields)
       (simp add: releases_def init_trace_def)
  show "held (snd (start_sending (map Frame ds @ rest) ?s)) =
           [Stream_close 0, Audio_terminate, Sock_close]"
    by (simp add: run log_msg_def emit_def held_def tx_started_def tx_stream_def
        AudioSender_fields)
qed

lemma replicate_frames:
  "replicate (Suc n) (Frame c) = map Frame (replicate n c) @ [Frame c]"
  by (simp add: replicate_append_same)

lemma round_count_10: "spec_round_count 44100 1024 10 = 431"
  by (simp add: spec_round_count_def round_def floor_eq_iff)

lemma ceil_count_10: "spec_ceil_count 44100 1024 10 = 431"
  by (simp add: spec_ceil_count_def ceiling_eq_iff)

subsection \<open>The bound of the range at some inputs\<close>

lemma fl_quotient: "fl (11025 / 256) = 11025 / 256"
  by code_simp

lemma fl_10: "fl 10 = 10"
  by code_simp

lemma fl_16: "fl 16 = 16"
  by code_simp

lemma fl_product_10: "fl (55125 / 128) = 55125 / 128"
  by code_simp

lemma fl_product_16: "fl (11025 / 16) = 11025 / 16"
  by code_simp

lemma py_int_product_16: "py_int (11025 / 16) = 689"
  by (simp add: py_int_def floor_eq_iff)

lemmas float_values =
  fl_quotient fl_10 fl_16 fl_product_10 fl_product_16 beyond_double_def py_int_def
  floor_eq_iff Let_def

lemma num_frames_py2_10: "num_frames Python2 44100 1024 10 = Inr 430"
  by (simp add: num_frames_def)

lemma num_frames_py3_10: "num_frames Python3 44100 1024 10 = Inr 430"
  by (simp add: num_frames_def float_values)

lemma limited_default_run:
  assumes "num_frames py 44100 1024 d = Inr (int n)" and "d \<noteq> 0"
  shows "fst (start_sending (replicate (Suc n) (Frame (replicate 2048 0)))
            (AudioSender (default_args\<lparr>arg_python := py, arg_duration := d\<rparr>))) = Normal \<and>
         length (sent (trace (snd (start_sending (replicate (Suc n) (Frame (replicate 2048 0)))
            (AudioSender (default_args\<lparr>arg_python := py, arg_duration := d\<rparr>)))))) = n"
proof -
  let ?a = "default_args\<lparr>arg_python := py, arg_duration := d\<rparr>"
  have d: "arg_duration ?a \<noteq> 0" using assms(2) by simp
  have f: "num_frames (arg_python ?a) (arg_rate ?a) (arg_chunk_size ?a) (arg_duration ?a)
      = Inr (int n)"
    using assms(1) by (simp add: default_args_def)
  have l: "length (replicate n (replicate 2048 (0::8 word))) = nat (int n)" by simp
  show ?thesis
    unfolding replicate_frames
    using limited_run(1) [OF d f l] limited_run(2) [OF d f l] by simp
qed

text \<open>
  C3 (counterexample). With the default rate 44100 and chunk size 1024 and a duration of
  10 seconds, on a device and a network that would take 431 chunks, the sender sends 430
  chunks and stops, on Python 2 and on Python 3 alike; \<open>round(rate/chunk_size \<times> D)\<close>
  and \<open>ceil(rate/chunk_size \<times> D)\<close> are both 431.
\<close>

theorem C3_round_count_counterexample:
  "fst (start_sending (replicate 431 (Frame (replicate 2048 0)))
          (AudioSender (default_args\<lparr>arg_duration := 10\<rparr>))) = Normal \<and>
   length (sent (trace (snd (start_sending (replicate 431 (Frame (replicate 2048 0)))
          (AudioSender (default_args\<lparr>arg_duration := 10\<rparr>)))))) = 430 \<and>
   fst (start_sending (replicate 431 (Frame (replicate 2048 0)))
          (AudioSender (default_args\<lparr>arg_python := Python3, arg_duration := 10\<rparr>))) = Normal \<and>
   length (sent (trace (snd (start_sending (replicate 431 (Frame (replicate 2048 0)))
          (AudioSender (default_args\<lparr>arg_python := Python3, arg_duration := 10\<rparr>)))))) = 430 \<and>
   spec_round_count 44100 1024 10 = 431 \<and>
   spec_ceil_count 44100 1024 10 = 431"
proof -
  have p2: "default_args\<lparr>arg_duration := 10\<rparr> =
      default_args\<lparr>arg_python := Python2, arg_duration := 10\<rparr>"
    by (simp add: default_args_def)
  have s: "(431::nat) = Suc 430" by simp
  have n2: "num_frames Python2 44100 1024 10 = Inr (int 430)"
    by (simp add: num_frames_py2_10)
  have n3: "num_frames Python3 44100 1024 10 = Inr (int 430)"
    by (simp add: num_frames_py3_10)
  show ?thesis
    unfolding p2 s
    using limited_default_run [OF n2] limited_default_run [OF n3]
    by (simp add: round_count_10 ceil_count_10)
qed

text \<open>
  C3 (amended). For every configuration with a nonzero duration limit \<open>D\<close> and a nonzero
  chunk size, once the socket is connected and the capture stream is open and as long as
  no capture read and no socket write raises, the sender sends exactly
  \<open>int(rate / chunk_size * D)\<close> chunks, as the interpreter computes that number (none
  when it is negative), and then stops: offered at least that many chunks,
  \<open>start_sending\<close> returns normally and has written exactly the first that many,
  whatever follows them. On Python 2 the number is \<open>floor(rate/chunk_size) \<times> D\<close>. On
  Python 3 it is the product in double precision of the quotient \<open>rate/chunk_size\<close> and
  \<open>D\<close>, its fraction dropped, provided that the quotient, \<open>D\<close> and the product are
  within the range of a double.
\<close>

theorem C3_time_limit_count:
  assumes "arg_duration a \<noteq> 0" and "arg_chunk_size a \<noteq> 0"
    and "arg_python a = Python3 \<Longrightarrow>
           \<not> beyond_double (fl (of_int (arg_rate a) / of_int (arg_chunk_size a))) \<and>
           \<not> beyond_double (fl (of_int (arg_duration a))) \<and>
           \<not> beyond_double (fl (fl (of_int (arg_rate a) / of_int (arg_chunk_size a)) *
                                  fl (of_int (arg_duration a))))"
    and "length ds =
           nat (case arg_python a of
                  Python2 \<Rightarrow> arg_rate a div arg_chunk_size a * arg_duration a
                | Python3 \<Rightarrow>
                    py_int (fl (fl (of_int (arg_rate a) / of_int (arg_chunk_size a)) *
                                fl (of_int (arg_duration a)))))"
  shows "fst (start_sending (map Frame ds @ rest) (AudioSender a)) = Normal \<and>
         sent (trace (snd (start_sending (map Frame ds @ rest) (AudioSender a)))) = ds"
proof -
  let ?n = "case arg_python a of
                  Python2 \<Rightarrow> arg_rate a div arg_chunk_size a * arg_duration a
                | Python3 \<Rightarrow>
                    py_int (fl (fl (of_int (arg_rate a) / of_int (arg_chunk_size a)) *
                                fl (of_int (arg_duration a))))"
  have f: "num_frames (arg_python a) (arg_rate a) (arg_chunk_size a) (arg_duration a) = Inr ?n"
  proof (cases "arg_python a")
    case Python2
    with assms(2) show ?thesis by (simp add: num_frames_def)
  next
    case Python3
    with assms(2) assms(3) show ?thesis by (simp add: num_frames_def Let_def)
  qed
  from limited_run(1) [OF assms(1) f assms(4)] limited_run(2) [OF assms(1) f assms(4)]
  show ?thesis by simp
qed

lemmas run_defs =
  start_sending_def socket_connect_def tx_open_audio_stream_def send_frame_def
  send_frames_with_time_limit_def num_frames_def AudioSender_def default_args_def
  init_trace_def step_defs Let_def

theorem C3_time_limit_count_witness:
  "fst (start_sending (map Frame (replicate 689 (replicate 2048 0)) @ [Frame [1, 2]])
          (AudioSender (default_args\<lparr>arg_python := Python3, arg_duration := 16\<rparr>))) = Normal \<and>
   sent (trace (snd (start_sending (map Frame (replicate 689 (replicate 2048 0)) @ [Frame [1, 2]])
          (AudioSender (default_args\<lparr>arg_python := Python3, arg_duration := 16\<rparr>)))))
     = replicate 689 (replicate 2048 0) \<and>
   fst (start_sending (map Frame (replicate 688 (replicate 2048 0)) @ [Frame [1, 2]])
          (AudioSender (default_args\<lparr>arg_duration := 16\<rparr>))) = Normal \<and>
   sent (trace (snd (start_sending (map Frame (replicate 688 (replicate 2048 0)) @ [Frame [1, 2]])
          (AudioSender (default_args\<lparr>arg_duration := 16\<rparr>)))))
     = replicate 688 (replicate 2048 0)"
proof -
  let ?a3 = "default_args\<lparr>arg_python := Python3, arg_duration := 16\<rparr>"
  let ?a2 = "default_args\<lparr>arg_duration := 16\<rparr>"
  have d3: "arg_duration ?a3 \<noteq> 0" and c3: "arg_chunk_size ?a3 \<noteq> 0"
    by (simp_all add: default_args_def)
  have r3: "arg_python ?a3 = Python3 \<Longrightarrow>
           \<not> beyond_double (fl (of_int (arg_rate ?a3) / of_int (arg_chunk_size ?a3))) \<and>
           \<not> beyond_double (fl (of_int (arg_duration ?a3))) \<and>
           \<not> beyond_double (fl (fl (of_int (arg_rate ?a3) / of_int (arg_chunk_size ?a3)) *
                                  fl (of_int (arg_duration ?a3))))"
    by (simp add: default_args_def float_values)
  have l3: "length (replicate 689 (replicate 2048 (0::8 word))) =
           nat (case arg_python ?a3 of
                  Python2 \<Rightarrow> arg_rate ?a3 div arg_chunk_size ?a3 * arg_duration ?a3
                | Python3 \<Rightarrow>
                    py_int (fl (fl (of_int (arg_rate ?a3) / of_int (arg_chunk_size ?a3)) *
                                fl (of_int (arg_duration ?a3)))))"
    by (simp add: default_args_def fl_quotient fl_16 fl_product_16 py_int_product_16)
  have d2: "arg_duration ?a2 \<noteq> 0" and c2: "arg_chunk_size ?a2 \<noteq> 0"
    by (simp_all add: default_args_def)
  have r2: "arg_python ?a2 = Python3 \<Longrightarrow>
           \<not> beyond_double (fl (of_int (arg_rate ?a2) / of_int (arg_chunk_size ?a2))) \<and>
           \<not> beyond_double (fl (of_int (arg_duration ?a2))) \<and>
           \<not> beyond_double (fl (fl (of_int (arg_rate ?a2) / of_int (arg_chunk_size ?a2)) *
                                  fl (of_int (arg_duration ?a2))))"
    by (simp add: default_args_def)
  have l2: "length (replicate 688 (replicate 2048 (0::8 word))) =
           nat (case arg_python ?a2 of
                  Python2 \<Rightarrow> arg_rate ?a2 div arg_chunk_size ?a2 * arg_duration ?a2
                | Python3 \<Rightarrow>
                    py_int (fl (fl (of_int (arg_rate ?a2) / of_int (arg_chunk_size ?a2)) *
                                fl (of_int (arg_duration ?a2)))))"
    by (simp add: default_args_def)
  show ?thesis
    using C3_time_limit_count [OF d3 c3 r3 l3, of "[Frame [1, 2]]"]
      C3_time_limit_count [OF d2 c2 r2 l2, of "[Frame [1, 2]]"]
    by simp
qed

text \<open>
  C10. A duration of 0, the default of \<open>--duration\<close>, is no limit: the sender runs the
  continuous loop. It never returns normally from \<open>start_sending\<close>, whatever the outside
  world does; and however many chunks the device delivers, it sends them all and is
  still in the loop, waiting for the next one.
\<close>

theorem C10_zero_duration_unlimited:
  assumes "arg_duration a = 0"
  shows "fst (start_sending script (AudioSender a)) \<noteq> Normal \<and>
         fst (start_sending (map Frame ds) (AudioSender a)) = Blocked \<and>
         sent (trace (snd (start_sending (map Frame ds) (AudioSender a)))) = ds \<and>
         fst (main_tx a (map Frame ds)) = Blocked"
proof -
  let ?s = "AudioSender a"
  have z: "duration ?s = Some 0 \<or> duration ?s = None"
    using assms by (simp add: AudioSender_fields)
  have run: "start_sending (map Frame ds) ?s =
     (Blocked, (tx_started ?s 0)\<lparr>trace := trace (tx_started ?s 0) @
            frame_events (tx_stream ?s 0) (chunk_size ?s) ds\<rparr>)"
    using z by (rule start_sending_continuous(1)) (simp_all add: AudioSender_fields)
  have never: "fst (start_sending script ?s) \<noteq> Normal"
    using z by (rule start_sending_continuous(2)) (simp_all add: AudioSender_fields)
  have all_sent: "sent (trace (snd (start_sending (map Frame ds) ?s))) = ds"
    by (simp add: run sent_append sent_frame_events tx_started_fields AudioSender_fields
        sent_init_trace)
  have main: "fst (main_tx a (map Frame ds)) = Blocked"
    by (simp add: main_tx_def run)
  from never run all_sent main show ?thesis by simp
qed

theorem C10_zero_duration_unlimited_witness:
  "arg_duration default_args = 0 \<and>
   fst (start_sending [Frame [1, 2], Frame [3, 4], Frame [5, 6]] (AudioSender default_args))
     = Blocked \<and>
   sent (trace (snd (start_sending [Frame [1, 2], Frame [3, 4], Frame [5, 6]]
     (AudioSender default_args)))) = [[1, 2], [3, 4], [5, 6]] \<and>
   fst (start_sending [] (AudioSender default_args)) \<noteq> Normal"
proof -
  have z: "arg_duration default_args = 0" by (simp add: default_args_def)
  show ?thesis
    using C10_zero_duration_unlimited [OF z, of "[]" "[[1, 2], [3, 4], [5, 6]]"] z
    by simp
qed

lemma fl_1: "fl 1 = 1"
  by code_simp

lemma num_frames_1: "num_frames py 44100 1024 1 = Inr 43"
  by (cases py) (simp_all add: num_frames_def fl_1 float_values)

lemma tx_normal_exit:
  "fst (main_tx (default_args\<lparr>arg_python := py, arg_duration := 1\<rparr>)
          (replicate 43 (Frame (replicate 2048 0))))
     = Raise (AttributeError ''stop_senddng'') \<and>
   releases (trace (snd (main_tx (default_args\<lparr>arg_python := py, arg_duration := 1\<rparr>)
     (replicate 43 (Frame (replicate 2048 0)))))) = [] \<and>
   held (snd (main_tx (default_args\<lparr>arg_python := py, arg_duration := 1\<rparr>)
     (replicate 43 (Frame (replicate 2048 0))))) = [Stream_close 0, Audio_terminate, Sock_close]"
proof -
  let ?a = "default_args\<lparr>arg_python := py, arg_duration := 1\<rparr>"
  let ?script = "replicate 43 (Frame (replicate 2048 (0::8 word)))"
  have script: "?script = map Frame (replicate 43 (replicate 2048 0)) @ []"
    by (simp add: map_replicate)
  have d: "arg_duration ?a \<noteq> 0"
    by (simp add: default_args_def)
  have f: "num_frames (arg_python ?a) (arg_rate ?a) (arg_chunk_size ?a) (arg_duration ?a)
      = Inr 43"
    by (simp add: default_args_def num_frames_1)
  have n: "length (replicate 43 (replicate 2048 (0::8 word))) = nat 43"
    by simp
  obtain res tx where run: "start_sending ?script (AudioSender ?a) = (res, tx)"
    by (cases "start_sending ?script (AudioSender ?a)")
  have "res = Normal" and "releases (trace tx) = []"
    and "held tx = [Stream_close 0, Audio_terminate, Sock_close]"
    using limited_run(1) [OF d f n, of "[]"] limited_run(3) [OF d f n, of "[]"]
      limited_run(4) [OF d f n, of "[]"] run
    unfolding script [symmetric] by simp_all
  then show ?thesis by (simp add: main_tx_def run)
qed

text \<open>
  C4 (the failing run). A sender started with the default options and \<open>--duration 1\<close>
  sends its 43 chunks and returns from \<open>start_sending\<close>; the next statement raises
  \<open>AttributeError\<close>, no handle has been released, and the stream, the PyAudio instance and
  the socket are all still held. The same happens on Python 3.
\<close>

theorem C4_tx_normal_exit_no_shutdown:
  "fst (main_tx (default_args\<lparr>arg_duration := 1\<rparr>) (replicate 43 (Frame (replicate 2048 0))))
     = Raise (AttributeError ''stop_senddng'') \<and>
   releases (trace (snd (main_tx (default_args\<lparr>arg_duration := 1\<rparr>)
     (replicate 43 (Frame (replicate 2048 0)))))) = [] \<and>
   held (snd (main_tx (default_args\<lparr>arg_duration := 1\<rparr>)
     (replicate 43 (Frame (replicate 2048 0))))) = [Stream_close 0, Audio_terminate, Sock_close] \<and>
   fst (main_tx (default_args\<lparr>arg_python := Python3, arg_duration := 1\<rparr>)
          (replicate 43 (Frame (replicate 2048 0))))
     = Raise (AttributeError ''stop_senddng'') \<and>
   releases (trace (snd (main_tx (default_args\<lparr>arg_python := Python3, arg_duration := 1\<rparr>)
     (replicate 43 (Frame (replicate 2048 0)))))) = []"
proof -
  have p2: "default_args\<lparr>arg_duration := 1\<rparr> =
      default_args\<lparr>arg_python := Python2, arg_duration := 1\<rparr>"
    by (simp add: default_args_def)
  show ?thesis
    unfolding p2 using tx_normal_exit [of Python2] tx_normal_exit [of Python3] by simp
qed

subsection \<open>The length of a chunk\<close>

text \<open>Whatever the outside world does, a chunk written to the socket is what a capture
  read of \<open>chunk_size\<close> frames on the sender's stream has returned.\<close>

lemma send_frame_reads:
  assumes "stream s = Some st" and "sock s = Some u"
  shows "\<exists>res evs. send_frame io s = (res, s\<lparr>trace := trace s @ evs\<rparr>) \<and>
           (\<forall>c \<in> set (sent evs). Stream_read st (chunk_size s) c \<in> set evs)"
proof (cases io)
  case (Frame d)
  with assms have "send_frame io s =
      (Normal, s\<lparr>trace := trace s @ [Stream_read st (chunk_size s) d, Sock_sendall d]\<rparr>)"
    by (simp add: send_frame_ok)
  then show ?thesis by (intro exI conjI) (assumption, simp)
next
  case (Send_raises d e)
  with assms have "send_frame io s =
      (Raise e, s\<lparr>trace := trace s @
         [Stream_read st (chunk_size s) d, Sock_sendall_raised d e]\<rparr>)"
    by (simp add: send_frame_def step_defs)
  then show ?thesis by (intro exI conjI) (assumption, simp)
next
  case (Read_raises e)
  with assms have "send_frame io s =
      (Raise e, s\<lparr>trace := trace s @ [Stream_read_raised st (chunk_size s) e]\<rparr>)"
    by (simp add: send_frame_def step_defs)
  then show ?thesis by (intro exI conjI) (assumption, simp)
qed

lemma send_frames_reads:
  assumes "stream s = Some st" and "sock s = Some u"
  shows "\<exists>res evs. send_frames n script s = (res, s\<lparr>trace := trace s @ evs\<rparr>) \<and>
           (\<forall>c \<in> set (sent evs). Stream_read st (chunk_size s) c \<in> set evs)"
  using assms
proof (induction n script s rule: send_frames.induct)
  case (1 script s)
  have "send_frames 0 script s = (Normal, s\<lparr>trace := trace s @ []\<rparr>)" by simp
  then show ?case by (intro exI conjI) (assumption, simp)
next
  case (2 n s)
  have "send_frames (Suc n) [] s = (Blocked, s\<lparr>trace := trace s @ []\<rparr>)" by simp
  then show ?case by (intro exI conjI) (assumption, simp)
next
  case (3 n io script s)
  from send_frame_reads [OF "3.prems", of io]
  obtain res1 evs1 where f: "send_frame io s = (res1, s\<lparr>trace := trace s @ evs1\<rparr>)"
    and r1: "\<forall>c \<in> set (sent evs1). Stream_read st (chunk_size s) c \<in> set evs1"
    by blast
  let ?s1 = "s\<lparr>trace := trace s @ evs1\<rparr>"
  show ?case
  proof (cases "res1 = Normal")
    case False
    then have "send_frames (Suc n) (io # script) s = (res1, ?s1)"
      by (cases res1) (simp_all add: f and_then_def)
    with r1 show ?thesis by blast
  next
    case True
    have "\<exists>res evs. send_frames n script ?s1 = (res, ?s1\<lparr>trace := trace ?s1 @ evs\<rparr>) \<and>
           (\<forall>c \<in> set (sent evs). Stream_read st (chunk_size ?s1) c \<in> set evs)"
      using "3.prems" by (intro "3.IH") simp_all
    then obtain res2 evs2 where
      l: "send_frames n script ?s1 = (res2, ?s1\<lparr>trace := trace ?s1 @ evs2\<rparr>)"
      and r2: "\<forall>c \<in> set (sent evs2). Stream_read st (chunk_size s) c \<in> set evs2"
      by auto
    have "send_frames (Suc n) (io # script) s =
        (res2, s\<lparr>trace := trace s @ (evs1 @ evs2)\<rparr>)"
      using True l by (simp add: f and_then_def)
    moreover have "\<forall>c \<in> set (sent (evs1 @ evs2)).
        Stream_read st (chunk_size s) c \<in> set (evs1 @ evs2)"
      using r1 r2 by (auto simp: sent_append)
    ultimately show ?thesis by blast
  qed
qed

lemma send_continuously_reads:
  assumes "stream s = Some st" and "sock s = Some u"
  shows "\<exists>res evs. send_frames_continuously script s = (res, s\<lparr>trace := trace s @ evs\<rparr>) \<and>
           (\<forall>c \<in> set (sent evs). Stream_read st (chunk_size s) c \<in> set evs)"
  using assms
proof (induction script arbitrary: s)
  case Nil
  have "send_frames_continuously [] s = (Blocked, s\<lparr>trace := trace s @ []\<rparr>)" by simp
  then show ?case by (intro exI conjI) (assumption, simp)
next
  case (Cons io script)
  from send_frame_reads [OF Cons.prems, of io]
  obtain res1 evs1 where f: "send_frame io s = (res1, s\<lparr>trace := trace s @ evs1\<rparr>)"
    and r1: "\<forall>c \<in> set (sent evs1). Stream_read st (chunk_size s) c \<in> set evs1"
    by blast
  let ?s1 = "s\<lparr>trace := trace s @ evs1\<rparr>"
  show ?case
  proof (cases "res1 = Normal")
    case False
    then have "send_frames_continuously (io # script) s = (res1, ?s1)"
      by (cases res1) (simp_all add: f and_then_def)
    with r1 show ?thesis by blast
  next
    case True
    have "\<exists>res evs. send_frames_continuously script ?s1 =
             (res, ?s1\<lparr>trace := trace ?s1 @ evs\<rparr>) \<and>
           (\<forall>c \<in> set (sent evs). Stream_read st (chunk_size ?s1) c \<in> set evs)"
      using Cons.prems by (intro Cons.IH) simp_all
    then obtain res2 evs2 where
      l: "send_frames_continuously script ?s1 = (res2, ?s1\<lparr>trace := trace ?s1 @ evs2\<rparr>)"
      and r2: "\<forall>c \<in> set (sent evs2). Stream_read st (chunk_size s) c \<in> set evs2"
      by auto
    have "send_frames_continuously (io # script) s =
        (res2, s\<lparr>trace := trace s @ (evs1 @ evs2)\<rparr>)"
      using True l by (simp add: f and_then_def)
    moreover have "\<forall>c \<in> set (sent (evs1 @ evs2)).
        Stream_read st (chunk_size s) c \<in> set (evs1 @ evs2)"
      using r1 r2 by (auto simp: sent_append)
    ultimately show ?thesis by blast
  qed
qed

lemma start_sending_reads:
  "\<forall>c \<in> set (sent (trace (snd (start_sending script (AudioSender a))))).
     Stream_read (tx_stream (AudioSender a) 0) (arg_chunk_size a) c
       \<in> set (trace (snd (start_sending script (AudioSender a))))"
proof -
  let ?s = "AudioSender a"
  let ?t = "tx_started ?s 0"
  let ?body = "case duration ?s of
          None \<Rightarrow> send_frames_continuously script ?t
        | Some d \<Rightarrow>
            if d \<noteq> 0 then send_frames_with_time_limit d script ?t
            else send_frames_continuously script ?t"
  have st: "stream ?t = Some (tx_stream ?s 0)" and so: "sock ?t = Some ()"
    by (simp_all add: tx_started_fields AudioSender_fields)
  have cs: "chunk_size ?t = arg_chunk_size a"
    by (simp add: tx_started_fields AudioSender_fields)
  have "\<exists>res evs. ?body = (res, ?t\<lparr>trace := trace ?t @ evs\<rparr>) \<and>
           (\<forall>c \<in> set (sent evs). Stream_read (tx_stream ?s 0) (chunk_size ?t) c \<in> set evs)"
  proof (cases "arg_duration a \<noteq> 0")
    case False
    then show ?thesis
      using send_continuously_reads [OF st so, of script]
      by (simp add: AudioSender_fields)
  next
    case True
    show ?thesis
    proof (cases "num_frames (arg_python a) (arg_rate a) (arg_chunk_size a) (arg_duration a)")
      case (Inr n)
      with True show ?thesis
        using send_frames_reads [OF st so]
        by (simp add: AudioSender_fields send_frames_with_time_limit_def cs tx_started_fields)
    next
      case (Inl e)
      have "?body = (Raise e, ?t\<lparr>trace := trace ?t @ []\<rparr>)"
        using True Inl
        by (simp add: AudioSender_fields send_frames_with_time_limit_def cs tx_started_fields)
      then show ?thesis by (intro exI conjI) (assumption, simp)
    qed
  qed
  then obtain res evs where body: "?body = (res, ?t\<lparr>trace := trace ?t @ evs\<rparr>)"
    and reads: "\<forall>c \<in> set (sent evs).
        Stream_read (tx_stream ?s 0) (arg_chunk_size a) c \<in> set evs"
    unfolding cs by blast
  have run: "start_sending script ?s =
      and_then (res, ?t\<lparr>trace := trace ?t @ evs\<rparr>)
        (\<lambda>s. (Normal, log_msg INFO ''Finished audio capture'' [] s))"
    using start_sending_started [of ?s "()" 0 script] body
    by (simp add: AudioSender_fields)
  have s0: "sent (trace ?t) = []"
    by (simp add: tx_started_fields AudioSender_fields sent_init_trace)
  show ?thesis
  proof (cases "res = Normal")
    case True
    then have "trace (snd (start_sending script ?s)) =
        trace ?t @ evs @ [Log INFO ''Finished audio capture'' []]"
      by (simp add: run and_then_def log_msg_def emit_def)
    with reads s0 show ?thesis by (auto simp: sent_append)
  next
    case False
    then have "trace (snd (start_sending script ?s)) = trace ?t @ evs"
      by (cases res) (simp_all add: run and_then_def)
    with reads s0 show ?thesis by (auto simp: sent_append)
  qed
qed

text \<open>
  C7. For all chunk sizes and channel counts that are positive, on a capture device that
  keeps PyAudio's contract for \<open>read\<close> (a read of \<open>n\<close> frames returns \<open>n\<close> frames of one
  sample of the format's size for each channel), every chunk the sender writes to the
  socket has \<open>chunk_size \<times> channels \<times> 2\<close> bytes, with or without a duration limit
  and whatever the network does.
\<close>

theorem C7_chunk_length:
  assumes "0 < arg_chunk_size a" and "0 < arg_channels a"
    and "\<forall>e \<in> set (trace (snd (start_sending script (AudioSender a)))). full_read e"
  shows "\<forall>c \<in> set (sent (trace (snd (start_sending script (AudioSender a))))).
           int (length c) = arg_chunk_size a * arg_channels a * 2"
proof
  fix c
  assume "c \<in> set (sent (trace (snd (start_sending script (AudioSender a)))))"
  with start_sending_reads have
    "Stream_read (tx_stream (AudioSender a) 0) (arg_chunk_size a) c
       \<in> set (trace (snd (start_sending script (AudioSender a))))"
    by blast
  with assms(3) have
    "full_read (Stream_read (tx_stream (AudioSender a) 0) (arg_chunk_size a) c)"
    by blast
  then have "length c = nat (arg_chunk_size a) * nat (arg_channels a) * 2"
    by (simp add: tx_stream_def AudioSender_fields)
  with assms(1,2) show "int (length c) = arg_chunk_size a * arg_channels a * 2"
    by simp
qed

theorem C7_chunk_length_witness:
  "sent (trace (snd (start_sending [Frame [1, 2, 3, 4], Frame [5, 6, 7, 8]]
      (AudioSender (default_args\<lparr>arg_rate := 4, arg_chunk_size := 2, arg_duration := 1\<rparr>)))))
     = [[1, 2, 3, 4], [5, 6, 7, 8]] \<and>
   int (length [5, 6, 7, 8 :: 8 word]) = 2 * 1 * 2"
proof -
  let ?a = "default_args\<lparr>arg_rate := 4, arg_chunk_size := 2, arg_duration := 1\<rparr>"
  let ?script = "[Frame [1, 2, 3, 4], Frame [5, 6, 7, 8]]"
  have run: "trace (snd (start_sending ?script (AudioSender ?a))) =
      init_trace @
      [Log INFO ''Opening socket connection'' [], Sock_connect [] 50007,
       Log INFO ''Opening audio stream'' [], Audio_open (tx_stream (AudioSender ?a) 0),
       Log INFO ''Begin audio capture'' [],
       Stream_read (tx_stream (AudioSender ?a) 0) 2 [1, 2, 3, 4], Sock_sendall [1, 2, 3, 4],
       Stream_read (tx_stream (AudioSender ?a) 0) 2 [5, 6, 7, 8], Sock_sendall [5, 6, 7, 8],
       Log INFO ''Finished audio capture'' []]"
    by (simp add: run_defs tx_stream_def numeral_2_eq_2)
  have p: "0 < arg_chunk_size ?a" and q: "0 < arg_channels ?a"
    by (simp_all add: default_args_def)
  have contract: "\<forall>e \<in> set (trace (snd (start_sending ?script (AudioSender ?a)))). full_read e"
    unfolding run by (simp add: init_trace_def tx_stream_def AudioSender_def default_args_def)
  have s: "sent (trace (snd (start_sending ?script (AudioSender ?a)))) =
      [[1, 2, 3, 4], [5, 6, 7, 8]]"
    unfolding run by (simp add: init_trace_def)
  from C7_chunk_length [OF p q contract] s show ?thesis
    by (simp add: default_args_def)
qed

section \<open>The receiver\<close>

declare recv_loop.simps [simp del]

lemma AudioReceiver_fields:
  "sock (AudioReceiver a) = Some ()"
  "audio (AudioReceiver a) = Some 0"
  "stream (AudioReceiver a) = None"
  "wf (AudioReceiver a) = None"
  "python (AudioReceiver a) = arg_python a"
  "trace (AudioReceiver a) = init_trace"
  "host (AudioReceiver a) = arg_host a"
  "port (AudioReceiver a) = arg_port a"
  by (simp_all add: AudioReceiver_def)

lemma played_append: "played (xs @ ys) = played xs @ played ys"
  by (induction xs rule: played.induct) simp_all

lemma played_loop_events: "played (loop_events k i cs) = cs"
  by (induction cs arbitrary: i) simp_all

lemma played_handler_events: "played (handler_events r k cs) = cs"
  by (simp add: handler_events_def played_append played_loop_events)

lemma rx_open_ok:
  "audio r = Some k \<Longrightarrow>
   rx_open_audio_stream r =
     (Normal, r\<lparr>audio := Some (Suc k), stream := Some (rx_stream r k),
                trace := trace r @ [Audio_open (rx_stream r k)]\<rparr>)"
  by (simp add: rx_open_audio_stream_def get_format_from_width_def width_def rx_stream_def
      emit_def Let_def)

lemma recv_loop_empty: "python r = Python2 \<Longrightarrow> recv_loop conn [] i r = (Normal, conn, r)"
  by (subst recv_loop.simps) simp

text \<open>One turn of the loop when its test is true.\<close>

lemma recv_loop_cont:
  assumes "\<not> (python r = Python2 \<and> dat = [])" and "stream r = Some st"
  shows "recv_loop conn dat i r =
    (case conn of
       [] \<Rightarrow>
         (Blocked, [],
          r\<lparr>trace := trace r @ [Stream_write (stream_id st) dat, Conn_recv 1024]\<rparr>)
     | Recv_raises e # conn' \<Rightarrow>
         (Raise e, conn',
          r\<lparr>trace := trace r @ [Stream_write (stream_id st) dat, Conn_recv 1024]\<rparr>)
     | Recv_data d # conn' \<Rightarrow>
         (case wf r of
            Some w \<Rightarrow>
              (Raise (NameError ''wf''), conn',
               r\<lparr>trace := trace r @ [Stream_write (stream_id st) dat, Conn_recv 1024,
                  Log DEBUG ''Frame %d'' [Arg_int i]]\<rparr>)
          | None \<Rightarrow>
              recv_loop conn' d (i + 1)
                (r\<lparr>trace := trace r @ [Stream_write (stream_id st) dat, Conn_recv 1024,
                   Log DEBUG ''Frame %d'' [Arg_int i]]\<rparr>)))"
proof -
  from assms(1) have c: "(python r = Python2 \<and> dat = []) = False" by simp
  show ?thesis
    by (subst recv_loop.simps, simp only: c if_False)
       (simp add: step_defs assms(2) split: list.splits recv_result.splits option.splits)
qed

text \<open>On Python 2, the loop on a connection that delivers the chunks \<open>cs\<close> and then an
  empty string, with no output file open.\<close>

lemma recv_loop_ok:
  assumes "python r = Python2" and "wf r = None" and "stream r = Some st" and "dat \<noteq> []"
    and "\<forall>c \<in> set cs. c \<noteq> []"
  shows "recv_loop (map Recv_data cs @ Recv_data [] # rest) dat i r =
           (Normal, rest, r\<lparr>trace := trace r @ loop_events (stream_id st) i (dat # cs)\<rparr>)"
  using assms
proof (induction cs arbitrary: dat i r)
  case Nil
  then show ?case
    by (simp add: recv_loop_cont recv_loop_empty)
next
  case (Cons c cs)
  let ?r2 = "r\<lparr>trace := trace r @
      [Stream_write (stream_id st) dat, Conn_recv 1024, Log DEBUG ''Frame %d'' [Arg_int i]]\<rparr>"
  have "recv_loop (map Recv_data cs @ Recv_data [] # rest) c (i + 1) ?r2 =
      (Normal, rest, ?r2\<lparr>trace := trace ?r2 @ loop_events (stream_id st) (i + 1) (c # cs)\<rparr>)"
    using Cons.prems by (intro Cons.IH) simp_all
  then show ?case
    using Cons.prems by (simp add: recv_loop_cont)
qed

lemma receive_audio_ok:
  assumes "python r = Python2" and "wf r = None" and "audio r = Some k"
    and "\<forall>c \<in> set cs. c \<noteq> []"
  shows "receive_audio (map Recv_data cs @ Recv_data [] # rest) r =
           (Normal, rest,
            r\<lparr>audio := Some (Suc k), stream := Some (rx_stream r k),
              trace := trace r @ handler_events r k cs\<rparr>)"
proof -
  let ?r1 = "r\<lparr>audio := Some (Suc k), stream := Some (rx_stream r k),
      trace := trace r @ [Log INFO ''Receiving audio...'' [], Audio_open (rx_stream r k)]\<rparr>"
  have open1: "rx_open_audio_stream (log_msg INFO ''Receiving audio...'' [] r) = (Normal, ?r1)"
    using assms(3) by (simp add: rx_open_ok log_msg_def emit_def rx_stream_def)
  show ?thesis
  proof (cases cs)
    case Nil
    then show ?thesis
      unfolding receive_audio_def open1
      using assms(1)
      by (simp add: recv_loop_empty step_defs handler_events_def rx_stream_def)
  next
    case (Cons c cs')
    let ?r2 = "emit (Conn_recv 1024) ?r1"
    have "recv_loop (map Recv_data cs' @ Recv_data [] # rest) c 1 ?r2 =
        (Normal, rest,
         ?r2\<lparr>trace := trace ?r2 @ loop_events (stream_id (rx_stream r k)) 1 (c # cs')\<rparr>)"
      using assms Cons by (intro recv_loop_ok) (simp_all add: emit_def)
    then show ?thesis
      using Cons unfolding receive_audio_def open1
      by (simp add: step_defs handler_events_def rx_stream_def)
  qed
qed

text \<open>On Python 3 the loop has no normal exit: it waits for the next read or it raises.\<close>

lemma recv_loop_python3:
  "python r = Python3 \<Longrightarrow> fst (recv_loop conn dat i r) \<noteq> Normal"
proof (induction conn arbitrary: dat i r)
  case Nil
  then show ?case
    by (subst recv_loop.simps) (simp add: step_defs split: option.splits)
next
  case (Cons x conn)
  show ?case
  proof (cases "stream r")
    case None
    with Cons.prems show ?thesis
      by (subst recv_loop.simps) (simp add: step_defs)
  next
    case (Some st)
    from Cons.prems have n: "\<not> (python r = Python2 \<and> dat = [])" by simp
    have "fst (recv_loop conn d (i + 1)
        (r\<lparr>trace := trace r @ [Stream_write (stream_id st) dat, Conn_recv 1024,
           Log DEBUG ''Frame %d'' [Arg_int i]]\<rparr>)) \<noteq> Normal" for d
      using Cons.prems by (intro Cons.IH) simp
    then show ?thesis
      by (simp add: recv_loop_cont [OF n Some] split: recv_result.splits option.splits)
  qed
qed

lemma receive_audio_python3:
  assumes "python r = Python3"
  shows "fst (receive_audio conn r) \<noteq> Normal"
proof (cases "audio r")
  case None
  then show ?thesis
    by (simp add: receive_audio_def rx_open_audio_stream_def log_msg_def emit_def)
next
  case (Some k)
  let ?r1 = "r\<lparr>audio := Some (Suc k), stream := Some (rx_stream r k),
      trace := trace r @ [Log INFO ''Receiving audio...'' [], Audio_open (rx_stream r k)]\<rparr>"
  have open1: "rx_open_audio_stream (log_msg INFO ''Receiving audio...'' [] r) = (Normal, ?r1)"
    using Some by (simp add: rx_open_ok log_msg_def emit_def rx_stream_def)
  show ?thesis
  proof (cases conn)
    case Nil
    then show ?thesis unfolding receive_audio_def open1 by simp
  next
    case (Cons x conn0)
    show ?thesis
    proof (cases x)
      case (Recv_raises e)
      with Cons show ?thesis unfolding receive_audio_def open1 by simp
    next
      case (Recv_data d)
      obtain res1 conn1 r3 where
        l: "recv_loop conn0 d 1 (emit (Conn_recv 1024) ?r1) = (res1, conn1, r3)"
        by (cases "recv_loop conn0 d 1 (emit (Conn_recv 1024) ?r1)") auto
      have "fst (recv_loop conn0 d 1 (emit (Conn_recv 1024) ?r1)) \<noteq> Normal"
        using assms by (intro recv_loop_python3) (simp add: emit_def)
      with l have "res1 \<noteq> Normal" by simp
      with Cons Recv_data l show ?thesis
        unfolding receive_audio_def open1 by (cases res1) simp_all
    qed
  qed
qed

lemmas rx_defs =
  listen_and_process_def try_accept_def receive_audio_def rx_open_audio_stream_def
  get_format_from_width_def width_def AudioReceiver_def default_args_def init_trace_def
  step_defs Let_def

text \<open>
  C1 (the failing run). On Python 3 the handler of a connection never returns normally,
  whatever the connection does. A connection delivers two bytes and is closed by the
  peer, so that every later read returns an empty \<open>bytes\<close> object: the handler writes the
  chunk to the playback device, and after the empty read goes on writing the empty chunk
  and reading again; the playback stream is never stopped or closed.
\<close>

theorem C1_python3_handler_never_returns:
  "fst (receive_audio conn (AudioReceiver (a\<lparr>arg_python := Python3\<rparr>))) \<noteq> Normal \<and>
   fst (receive_audio [Recv_data [1, 2], Recv_data [], Recv_data []]
          (AudioReceiver (default_args\<lparr>arg_python := Python3\<rparr>))) = Blocked \<and>
   trace (snd (snd (receive_audio [Recv_data [1, 2], Recv_data [], Recv_data []]
          (AudioReceiver (default_args\<lparr>arg_python := Python3\<rparr>))))) =
     init_trace @
     [Log INFO ''Receiving audio...'' [],
      Audio_open (rx_stream (AudioReceiver default_args) 0), Conn_recv 1024,
      Stream_write 0 [1, 2], Conn_recv 1024, Log DEBUG ''Frame %d'' [Arg_int 1],
      Stream_write 0 [], Conn_recv 1024, Log DEBUG ''Frame %d'' [Arg_int 2],
      Stream_write 0 [], Conn_recv 1024]"
proof -
  have "fst (receive_audio conn (AudioReceiver (a\<lparr>arg_python := Python3\<rparr>))) \<noteq> Normal"
    by (rule receive_audio_python3) (simp add: AudioReceiver_fields)
  moreover have
    "receive_audio [Recv_data [1, 2], Recv_data [], Recv_data []]
          (AudioReceiver (default_args\<lparr>arg_python := Python3\<rparr>)) =
     (Blocked, [],
      (AudioReceiver (default_args\<lparr>arg_python := Python3\<rparr>))\<lparr>audio := Some 1,
        stream := Some (rx_stream (AudioReceiver default_args) 0),
        trace := init_trace @
          [Log INFO ''Receiving audio...'' [],
           Audio_open (rx_stream (AudioReceiver default_args) 0), Conn_recv 1024,
           Stream_write 0 [1, 2], Conn_recv 1024, Log DEBUG ''Frame %d'' [Arg_int 1],
           Stream_write 0 [], Conn_recv 1024, Log DEBUG ''Frame %d'' [Arg_int 2],
           Stream_write 0 [], Conn_recv 1024]\<rparr>)"
    by (simp add: rx_defs recv_loop.simps rx_stream_def)
  ultimately show ?thesis by simp
qed

text \<open>
  C8 (the failing run). A receiver with the default options opens \<open>out.wav\<close>: the header
  fields are the configured channel count 1, the sample width 2 and the frame rate
  44100. A connection then delivers one chunk of four bytes and closes. The handler
  writes the chunk to the playback device, reads again, and raises \<open>NameError\<close> at
  \<open>wf.writeframes(data)\<close>: nothing has been appended to the file. On Python 3 the handler
  raises at the same place.
\<close>

theorem C8_wave_file_name_error:
  "open_wave_file ''out.wav'' (AudioReceiver default_args) =
     (Normal, (AudioReceiver default_args)\<lparr>wf := Some
        \<lparr>wave_filename = ''out.wav'', nchannels = 1, sampwidth = 2, framerate = 44100,
         frames = []\<rparr>\<rparr>) \<and>
   fst (receive_audio [Recv_data [1, 2, 3, 4], Recv_data []]
          (snd (open_wave_file ''out.wav'' (AudioReceiver default_args))))
     = Raise (NameError ''wf'') \<and>
   played (trace (snd (snd (receive_audio [Recv_data [1, 2, 3, 4], Recv_data []]
          (snd (open_wave_file ''out.wav'' (AudioReceiver default_args)))))))
     = [[1, 2, 3, 4]] \<and>
   wf (snd (snd (receive_audio [Recv_data [1, 2, 3, 4], Recv_data []]
          (snd (open_wave_file ''out.wav'' (AudioReceiver default_args))))))
     = Some \<lparr>wave_filename = ''out.wav'', nchannels = 1, sampwidth = 2, framerate = 44100,
         frames = []\<rparr> \<and>
   fst (receive_audio [Recv_data [1, 2, 3, 4], Recv_data []]
          (snd (open_wave_file ''out.wav''
             (AudioReceiver (default_args\<lparr>arg_python := Python3\<rparr>)))))
     = Raise (NameError ''wf'')"
proof -
  have o: "open_wave_file ''out.wav'' (AudioReceiver default_args) =
     (Normal, (AudioReceiver default_args)\<lparr>wf := Some
        \<lparr>wave_filename = ''out.wav'', nchannels = 1, sampwidth = 2, framerate = 44100,
         frames = []\<rparr>\<rparr>)"
    by (simp add: open_wave_file_def AudioReceiver_def default_args_def Let_def)
  have o3: "open_wave_file ''out.wav'' (AudioReceiver (default_args\<lparr>arg_python := Python3\<rparr>)) =
     (Normal, (AudioReceiver (default_args\<lparr>arg_python := Python3\<rparr>))\<lparr>wf := Some
        \<lparr>wave_filename = ''out.wav'', nchannels = 1, sampwidth = 2, framerate = 44100,
         frames = []\<rparr>\<rparr>)"
    by (simp add: open_wave_file_def AudioReceiver_def default_args_def Let_def)
  show ?thesis
    unfolding o o3
    by (simp add: rx_defs recv_loop.simps)
qed

text \<open>
  C5 (counterexample). On Python 2, a first connection is served and closes; the next
  accept raises \<open>socket.error\<close> with the errno \<open>ECONNABORTED\<close>, which is not \<open>EINTR\<close>;
  a second connection is then accepted and served, and the loop waits in a further
  accept: the error has not ended the receive loop.
\<close>

theorem C5_other_error_counterexample:
  "ECONNABORTED \<noteq> EINTR \<and>
   fst (listen_and_process
          [Accepted [Recv_data [1, 2], Recv_data [], Recv_data []] (''10.0.0.2'', 40000),
           Accept_error ECONNABORTED,
           Accepted [Recv_data [3, 4], Recv_data []] (''10.0.0.3'', 40001)]
          (AudioReceiver default_args)) = Blocked \<and>
   played (trace (snd (listen_and_process
          [Accepted [Recv_data [1, 2], Recv_data [], Recv_data []] (''10.0.0.2'', 40000),
           Accept_error ECONNABORTED,
           Accepted [Recv_data [3, 4], Recv_data []] (''10.0.0.3'', 40001)]
          (AudioReceiver default_args)))) = [[1, 2], [3, 4]]"
  by (simp add: rx_defs recv_loop.simps ECONNABORTED_def EINTR_def)

lemma accept_timeouts:
  "accept_loop (replicate n Accept_timeout @ script) cur r =
     accept_loop script cur (r\<lparr>trace := trace r @ replicate n Sock_accept\<rparr>)"
proof (induction n arbitrary: r)
  case 0
  show ?case by simp
next
  case (Suc n)
  have "replicate n Sock_accept @ [Sock_accept] = Sock_accept # replicate n Sock_accept"
    by (simp add: replicate_append_same)
  then show ?case
    using Suc [of "emit Sock_accept r"] by (simp add: try_accept_def emit_def)
qed

lemma listen_started:
  "listen_and_process script (AudioReceiver a) =
     accept_loop script None
       ((AudioReceiver a)\<lparr>trace := init_trace @
          [Sock_bind (arg_host a) (arg_port a), Sock_listen 1,
           Log INFO ''Waiting for new connection...'' []]\<rparr>)"
  by (simp add: listen_and_process_def step_defs AudioReceiver_def)

text \<open>
  C5 (amended). In the receiver's accept loop a socket accept timeout is swallowed and
  another accept is attempted, and a socket error on accept whose errno is \<open>EINTR\<close>
  ends the receive loop: at any point of the loop a timeout leaves the loop as it was
  but for the accept made, and an \<open>EINTR\<close> error makes it return; a receiver that sees
  only timeouts, however many, is still waiting in an accept, and one that sees timeouts
  and then an \<open>EINTR\<close> error has returned, having made one accept for each and nothing
  else.
\<close>

theorem C5_timeout_retried_eintr_ends:
  "accept_loop (Accept_timeout # script) cur r = accept_loop script cur (emit Sock_accept r) \<and>
   accept_loop (Accept_error EINTR # script) cur r = (Normal, emit Sock_accept r) \<and>
   fst (listen_and_process (replicate n Accept_timeout) (AudioReceiver a)) = Blocked \<and>
   listen_and_process (replicate n Accept_timeout @ Accept_error EINTR # script)
       (AudioReceiver a) =
     (Normal, (AudioReceiver a)\<lparr>trace := init_trace @
          [Sock_bind (arg_host a) (arg_port a), Sock_listen 1,
           Log INFO ''Waiting for new connection...'' []] @
          replicate (Suc n) Sock_accept\<rparr>)"
proof -
  have one: "accept_loop (Accept_timeout # script) cur r =
      accept_loop script cur (emit Sock_accept r)"
    by (simp add: try_accept_def)
  have two: "accept_loop (Accept_error EINTR # script) cur r = (Normal, emit Sock_accept r)"
    by (simp add: try_accept_def)
  have three: "fst (listen_and_process (replicate n Accept_timeout) (AudioReceiver a)) = Blocked"
    using accept_timeouts [of n "[]"] by (simp add: listen_started)
  have "replicate n Sock_accept @ [Sock_accept] = Sock_accept # replicate n Sock_accept"
    by (simp add: replicate_append_same)
  then have four:
    "listen_and_process (replicate n Accept_timeout @ Accept_error EINTR # script)
       (AudioReceiver a) =
     (Normal, (AudioReceiver a)\<lparr>trace := init_trace @
          [Sock_bind (arg_host a) (arg_port a), Sock_listen 1,
           Log INFO ''Waiting for new connection...'' []] @
          replicate (Suc n) Sock_accept\<rparr>)"
    by (simp add: listen_started accept_timeouts try_accept_def emit_def)
  from one two three four show ?thesis by blast
qed

subsection \<open>One connection at a time\<close>







section \<open>Shutdown\<close>




lemma perform_all_append:
  "perform_all (xs @ ys) h =
     (case perform_all xs h of Inl x \<Rightarrow> Inl x | Inr h' \<Rightarrow> perform_all ys h')"
  by (induction xs arbitrary: h) (simp_all split: sum.splits)




end
